theory Spec2Isabelle
  imports
    Main
    "HOL-Library.Sublist"
    "HOL-Library.Multiset"
    "HOL-Library.Char_ord"
    "HOL-Library.Option_ord"
    "HOL-Library.List_Lexorder"
    "HOL-Library.Product_Lexorder"
begin

section \<open>The research dashboard: reminders, digests and the vault export\<close>

text \<open>
  A shallow embedding of the notification and export code of the dashboard:
  \<^verbatim>\<open>models.py\<close> (the rows the jobs read), \<^verbatim>\<open>integrations.py\<close> (the Discord and
  email notifiers, the Obsidian export) and \<^verbatim>\<open>scheduler.py\<close> (the two scheduled
  jobs).

  Conventions of the model.
  \<^item> A Python \<^verbatim>\<open>str\<close> is a \<^typ>\<open>string\<close>. Text outside ASCII is carried as its UTF-8
    bytes, and a character of the \<^verbatim>\<open>str\<close> is the bytes of one code point. The classes
    \<^verbatim>\<open>isspace\<close> and \<^verbatim>\<open>title\<close> are those of Python on ASCII characters. The class
    \<^verbatim>\<open>isalnum\<close>, which decides the file names of the export, is that of Python on every
    character: on ASCII it is written out, outside ASCII it is a table of the Unicode
    character database, which the export takes as a parameter.
  \<^item> A \<^verbatim>\<open>datetime.date\<close> is its proleptic Gregorian ordinal (\<^verbatim>\<open>date.toordinal()\<close>), an
    \<^typ>\<open>int\<close>; \<^verbatim>\<open>d + timedelta(days=n)\<close> is \<open>d + n\<close> and a difference of dates is a
    difference of ordinals. The range limits of \<^verbatim>\<open>date\<close> (years 1 to 9999) are not
    modelled. \<^verbatim>\<open>date.today()\<close> is a parameter \<open>today\<close>, the same for the whole job.
  \<^item> A nullable column is an \<^typ>\<open>'a option\<close>.
  \<^item> An exception is a value of \<open>py_error\<close>; a function that can raise returns
    \<open>py_error + 'a\<close>, with \<open>Inl\<close> for the exception.
  \<^item> Sending is an effect on a \<open>world\<close>: the calls made to notifiers, the requests put
    on the network, and the error log. Whether a request fails is decided by a
    \<open>transport\<close>, a parameter: it sees the requests made so far and the current one.
  \<^item> The tables are lists of rows in their stored order, and do not change while a job
    runs.
  \<^item> A function keeps its name without the leading underscore (\<open>check_deadlines\<close> is
    \<^verbatim>\<open>_check_deadlines\<close>); a method that two classes define carries its class
    (\<open>discord_send_daily_digest\<close> is \<^verbatim>\<open>DiscordNotifier.send_daily_digest\<close>).
\<close>

subsection \<open>Python values\<close>

datatype py_error =
    TypeError string
  | AttributeError string
  | ValueError string
  | DeliveryError string

fun err_str :: "py_error \<Rightarrow> string" where
  "err_str (TypeError m) = m"
| "err_str (AttributeError m) = m"
| "err_str (ValueError m) = m"
| "err_str (DeliveryError m) = m"

text \<open>Truth value of an optional string: \<^verbatim>\<open>None\<close> and \<^verbatim>\<open>""\<close> are false.\<close>

fun truthy :: "string option \<Rightarrow> bool" where
  "truthy None = False"
| "truthy (Some s) = (s \<noteq> [])"

text \<open>\<^verbatim>\<open>x or ""\<close> for an optional string \<open>x\<close>.\<close>

fun or_empty :: "string option \<Rightarrow> string" where
  "or_empty None = []"
| "or_empty (Some s) = s"

text \<open>\<^verbatim>\<open>str(x)\<close> of an optional string, as an f-string prints it.\<close>

fun str_opt :: "string option \<Rightarrow> string" where
  "str_opt None = ''None''"
| "str_opt (Some s) = s"

definition digit_char :: "nat \<Rightarrow> char" where
  "digit_char n = ''0123456789'' ! (n mod 10)"

function str_nat :: "nat \<Rightarrow> string" where
  "str_nat n = (if n < 10 then [digit_char n] else str_nat (n div 10) @ [digit_char n])"
  by pat_completeness auto
termination
  by (relation "measure id") auto

declare str_nat.simps [simp del]

text \<open>\<^verbatim>\<open>str(i)\<close> of an integer.\<close>

definition str_int :: "int \<Rightarrow> string" where
  "str_int i = (if i < 0 then CHR ''-'' # str_nat (nat (- i)) else str_nat (nat i))"

text \<open>The format \<^verbatim>\<open>%0wd\<close> of a non-negative integer.\<close>

definition zero_pad :: "nat \<Rightarrow> int \<Rightarrow> string" where
  "zero_pad w i = (let s = str_int i in replicate (w - length s) (CHR ''0'') @ s)"

definition py_isspace :: "char \<Rightarrow> bool" where
  "py_isspace c = (let n = (of_char c :: nat) in (9 \<le> n \<and> n \<le> 13) \<or> (28 \<le> n \<and> n \<le> 32))"

definition py_isdigit :: "char \<Rightarrow> bool" where
  "py_isdigit c = (let n = (of_char c :: nat) in 48 \<le> n \<and> n \<le> 57)"

definition py_isupper :: "char \<Rightarrow> bool" where
  "py_isupper c = (let n = (of_char c :: nat) in 65 \<le> n \<and> n \<le> 90)"

definition py_islower :: "char \<Rightarrow> bool" where
  "py_islower c = (let n = (of_char c :: nat) in 97 \<le> n \<and> n \<le> 122)"

text \<open>
  The characters of a \<^verbatim>\<open>str\<close>, as \<^verbatim>\<open>for c in s\<close> yields them: each is the bytes of one
  code point, a leading byte and the continuation bytes that follow it (at most as many
  as the leading byte announces).
\<close>

definition utf8_length :: "char \<Rightarrow> nat" where
  "utf8_length c =
     (let n = (of_char c :: nat)
      in if n < 192 then 1 else if n < 224 then 2 else if n < 240 then 3 else 4)"

definition is_continuation :: "char \<Rightarrow> bool" where
  "is_continuation c = (let n = (of_char c :: nat) in 128 \<le> n \<and> n < 192)"

function code_points :: "string \<Rightarrow> string list" where
  "code_points [] = []"
| "code_points (c # cs) =
     (c # takeWhile is_continuation (take (utf8_length c - 1) cs))
     # code_points (drop (length (takeWhile is_continuation (take (utf8_length c - 1) cs))) cs)"
  by pat_completeness auto
termination
  by (relation "measure length") auto

text \<open>
  \<^verbatim>\<open>c.isalnum()\<close> of one character. For an ASCII character it holds of the letters and
  the digits. For a character outside ASCII it is decided by the Unicode character
  database: \<open>unicode_alnum\<close>, given the UTF-8 bytes of the code point, is that table.
\<close>

definition py_isalnum :: "(string \<Rightarrow> bool) \<Rightarrow> string \<Rightarrow> bool" where
  "py_isalnum unicode_alnum c =
     (case c of
        [a] \<Rightarrow> py_isdigit a \<or> py_isupper a \<or> py_islower a
      | _ \<Rightarrow> unicode_alnum c)"

definition py_upper :: "char \<Rightarrow> char" where
  "py_upper c = (if py_islower c then char_of ((of_char c :: nat) - 32) else c)"

definition py_lower :: "char \<Rightarrow> char" where
  "py_lower c = (if py_isupper c then char_of ((of_char c :: nat) + 32) else c)"

text \<open>\<^verbatim>\<open>s.strip()\<close>: leading and trailing whitespace removed.\<close>

definition py_strip :: "string \<Rightarrow> string" where
  "py_strip s = rev (dropWhile py_isspace (rev (dropWhile py_isspace s)))"

text \<open>
  \<^verbatim>\<open>s.title()\<close>: a letter that follows a letter is lowered, any other letter is raised;
  the flag says whether the previous character was a letter.
\<close>

fun title_from :: "bool \<Rightarrow> string \<Rightarrow> string" where
  "title_from prev [] = []"
| "title_from prev (c # cs) =
     (if py_islower c then (if prev then c else py_upper c) # title_from True cs
      else if py_isupper c then (if prev then py_lower c else c) # title_from True cs
      else c # title_from False cs)"

definition py_title :: "string \<Rightarrow> string" where
  "py_title s = title_from False s"

text \<open>\<^verbatim>\<open>s.split(sep)\<close> for a separator of one character.\<close>

fun py_split :: "char \<Rightarrow> string \<Rightarrow> string list" where
  "py_split sep [] = [[]]"
| "py_split sep (c # cs) =
     (if c = sep then [] # py_split sep cs
      else (case py_split sep cs of
              [] \<Rightarrow> [[c]]
            | w # ws \<Rightarrow> (c # w) # ws))"

text \<open>\<^verbatim>\<open>sep.join(parts)\<close>.\<close>

fun py_join :: "string \<Rightarrow> string list \<Rightarrow> string" where
  "py_join sep [] = []"
| "py_join sep [p] = p"
| "py_join sep (p # q # ps) = p @ sep @ py_join sep (q # ps)"

text \<open>\<^verbatim>\<open>s.replace(a, b)\<close> for single characters.\<close>

definition py_replace :: "char \<Rightarrow> char \<Rightarrow> string \<Rightarrow> string" where
  "py_replace a b s = map (\<lambda>c. if c = a then b else c) s"

text \<open>
  \<^verbatim>\<open>int(s)\<close> on ASCII text: surrounding whitespace, an optional sign, decimal digits,
  single underscores between digits. \<open>None\<close> stands for the \<^verbatim>\<open>ValueError\<close>.
\<close>

definition digits_value :: "string \<Rightarrow> nat" where
  "digits_value ds = foldl (\<lambda>acc c. 10 * acc + ((of_char c :: nat) - 48)) 0 ds"

definition py_int :: "string \<Rightarrow> int option" where
  "py_int s =
     (let t = py_strip s;
          neg = (case t of [] \<Rightarrow> False | c # r \<Rightarrow> c = CHR ''-'');
          body = (case t of [] \<Rightarrow> [] | c # r \<Rightarrow> if c = CHR ''-'' \<or> c = CHR ''+'' then r else t);
          groups = py_split (CHR ''_'') body
      in if list_all (\<lambda>g. g \<noteq> [] \<and> list_all py_isdigit g) groups
         then Some ((if neg then - 1 else 1) * int (digits_value (concat groups)))
         else None)"

text \<open>\<^verbatim>\<open>os.path.join\<close> (POSIX): an absolute component discards what came before.\<close>

definition path_join2 :: "string \<Rightarrow> string \<Rightarrow> string" where
  "path_join2 a b =
     (if b \<noteq> [] \<and> hd b = CHR ''/'' then b
      else if a = [] \<or> last a = CHR ''/'' then a @ b
      else a @ ''/'' @ b)"

definition path_join :: "string \<Rightarrow> string list \<Rightarrow> string" where
  "path_join a ps = foldl path_join2 a ps"

subsection \<open>Dates\<close>

text \<open>
  The calendar of \<^verbatim>\<open>datetime\<close>: year, month and day of an ordinal, as the library's
  \<^verbatim>\<open>_ord2ymd\<close> computes them.
\<close>

definition days_before_month :: "int \<Rightarrow> int" where
  "days_before_month m = [0, 0, 31, 59, 90, 120, 151, 181, 212, 243, 273, 304, 334] ! nat m"

definition days_in_month :: "int \<Rightarrow> int" where
  "days_in_month m = [0, 31, 28, 31, 30, 31, 30, 31, 31, 30, 31, 30, 31] ! nat m"

definition ord2ymd :: "int \<Rightarrow> int \<times> int \<times> int" where
  "ord2ymd n0 =
     (let n = n0 - 1;
          n400 = n div 146097; n = n mod 146097;
          n100 = n div 36524; n = n mod 36524;
          n4 = n div 1461; n = n mod 1461;
          n1 = n div 365; n = n mod 365;
          year = n400 * 400 + 1 + n100 * 100 + n4 * 4 + n1
      in if n1 = 4 \<or> n100 = 4 then (year - 1, 12, 31)
         else
           (let leapyear = (n1 = 3 \<and> (n4 \<noteq> 24 \<or> n100 = 3));
                month = (n + 50) div 32;
                preceding = days_before_month month + (if month > 2 \<and> leapyear then 1 else 0)
            in if preceding > n
               then (let month' = month - 1;
                         preceding' = preceding
                           - (days_in_month month' + (if month' = 2 \<and> leapyear then 1 else 0))
                     in (year, month', n - preceding' + 1))
               else (year, month, n - preceding + 1)))"

text \<open>\<^verbatim>\<open>d.isoformat()\<close>: \<^verbatim>\<open>YYYY-MM-DD\<close>.\<close>

definition isoformat :: "int \<Rightarrow> string" where
  "isoformat d =
     (case ord2ymd d of (y, m, dd) \<Rightarrow> zero_pad 4 y @ ''-'' @ zero_pad 2 m @ ''-'' @ zero_pad 2 dd)"

definition weekday_name :: "int \<Rightarrow> string" where
  "weekday_name d =
     [''Monday'', ''Tuesday'', ''Wednesday'', ''Thursday'', ''Friday'', ''Saturday'', ''Sunday'']
       ! nat ((d + 6) mod 7)"

definition month_name :: "int \<Rightarrow> string" where
  "month_name m =
     ['''', ''January'', ''February'', ''March'', ''April'', ''May'', ''June'', ''July'',
      ''August'', ''September'', ''October'', ''November'', ''December''] ! nat m"

text \<open>\<^verbatim>\<open>d.strftime('%A, %B %d, %Y')\<close> in the C locale.\<close>

definition strftime_long :: "int \<Rightarrow> string" where
  "strftime_long d =
     (case ord2ymd d of (y, m, dd) \<Rightarrow>
        weekday_name d @ '', '' @ month_name m @ '' '' @ zero_pad 2 dd @ '', '' @ str_int y)"


subsection \<open>The rows (\<^verbatim>\<open>models.py\<close>)\<close>

text \<open>
  The columns the notification and export code reads. Field names carry the class as a
  prefix (\<open>ev_title\<close> is \<^verbatim>\<open>Event.title\<close>), since several classes share column names.
\<close>

record event =
  ev_id :: int
  ev_title :: string
  ev_category :: string
  ev_website :: "string option"
  ev_association :: "string option"
  ev_relevance_tags :: "string option"
  ev_location :: "string option"
  ev_submission_deadline :: "int option"
  ev_notification_date :: "int option"
  ev_camera_ready_date :: "int option"
  ev_event_start_date :: "int option"
  ev_event_end_date :: "int option"
  ev_description :: "string option"
  ev_notes :: "string option"
  ev_status :: "string option"

record todo =
  todo_id :: int
  todo_title :: string
  todo_priority :: string
  todo_due_date :: "int option"
  todo_status :: string

record researcher =
  res_name :: string
  res_website :: "string option"
  res_affiliation :: "string option"
  res_research_areas :: "string option"
  res_notes :: "string option"

text \<open>
  \<^verbatim>\<open>DailyLog.hours_worked\<close> is a float. The code observes it twice only, by its truth
  value and by \<^verbatim>\<open>str\<close>; the model carries these two observations.
\<close>

datatype py_float = PyFloat (float_nonzero: bool) (float_str: string)

record daily_log =
  log_date :: int
  log_content :: "string option"
  log_hours_worked :: "py_float option"
  log_mood :: "string option"
  log_tags :: "string option"

text \<open>The property \<^verbatim>\<open>Event.days_until_deadline\<close>.\<close>

definition days_until_deadline :: "int \<Rightarrow> event \<Rightarrow> int option" where
  "days_until_deadline today e =
     (case ev_submission_deadline e of
        Some d \<Rightarrow> Some (d - today)
      | None \<Rightarrow> None)"

text \<open>An optional integer as an f-string prints it.\<close>

fun str_opt_int :: "int option \<Rightarrow> string" where
  "str_opt_int None = ''None''"
| "str_opt_int (Some i) = str_int i"

subsection \<open>Requests, calls and the world\<close>

text \<open>A Discord embed: a dictionary whose keys may be absent.\<close>

record embed =
  emb_title :: string
  emb_description :: "string option"
  emb_color :: int
  emb_url :: "string option"
  emb_fields :: "(string \<times> string \<times> bool) list option"

text \<open>
  What is put on the network: the JSON posted to a webhook (the key \<^verbatim>\<open>embeds\<close> may be
  absent), or one SMTP session (connect, STARTTLS, login, send).
\<close>

datatype request =
    HttpPost (rq_url: string) (rq_content: string) (rq_embeds: "embed list option")
  | SmtpSend (rq_server: string) (rq_port: int) (rq_username: string) (rq_password: string)
      (rq_to: string) (rq_subject: string) (rq_html: string)

datatype notifier =
    DiscordNotifier string
  | EmailNotifier string int string string string

text \<open>A call of a notifier's method by a scheduled job, with the notifier's kind.\<close>

datatype call =
    ReminderCall (call_kind: string) (call_event: event)
  | DigestCall (call_kind: string) (call_events: "event list") (call_todos: "todo list")

record world =
  calls :: "call list"
  requests :: "request list"
  errlog :: "string list"

type_synonym transport = "request list \<Rightarrow> request \<Rightarrow> py_error option"

text \<open>The transport on which every request succeeds.\<close>

definition reliable :: transport where
  "reliable history rq = None"

text \<open>One request: it is made, and the transport says whether it raised.\<close>

definition perform :: "transport \<Rightarrow> request \<Rightarrow> world \<Rightarrow> (py_error + unit) \<times> world" where
  "perform net rq w =
     (let w' = w\<lparr>requests := requests w @ [rq]\<rparr>
      in case net (requests w) rq of
           None \<Rightarrow> (Inr (), w')
         | Some e \<Rightarrow> (Inl e, w'))"

text \<open>A loop body that can raise, over a list: the first exception ends the loop.\<close>

fun map_result :: "('a \<Rightarrow> py_error + 'b) \<Rightarrow> 'a list \<Rightarrow> py_error + 'b list" where
  "map_result f [] = Inr []"
| "map_result f (x # xs) =
     (case f x of
        Inl e \<Rightarrow> Inl e
      | Inr y \<Rightarrow> (case map_result f xs of Inl e \<Rightarrow> Inl e | Inr ys \<Rightarrow> Inr (y # ys)))"

definition nl :: string where
  "nl = [CHR 0x0A]"

definition dq :: string where
  "dq = [CHR 0x22]"

definition sq :: string where
  "sq = [CHR 0x27]"

definition em_dash :: string where
  "em_dash = [CHR 0xE2, CHR 0x80, CHR 0x94]"

definition bullet :: string where
  "bullet = [CHR 0xE2, CHR 0x80, CHR 0xA2]"

text \<open>The messages of the exceptions Python raises on a missing deadline.\<close>

definition none_le_int :: py_error where
  "none_le_int = TypeError (sq @ ''<='' @ sq @ '' not supported between instances of ''
     @ sq @ ''NoneType'' @ sq @ '' and '' @ sq @ ''int'' @ sq)"

definition none_isoformat :: py_error where
  "none_isoformat = AttributeError (sq @ ''NoneType'' @ sq @ '' object has no attribute ''
     @ sq @ ''isoformat'' @ sq)"

subsection \<open>The Discord notifier (\<^verbatim>\<open>integrations.py\<close>)\<close>

text \<open>\<^verbatim>\<open>DiscordNotifier.send_message\<close>: the key \<^verbatim>\<open>embeds\<close> is set when the list is not empty.\<close>

definition send_message ::
  "transport \<Rightarrow> string \<Rightarrow> string \<Rightarrow> embed list option \<Rightarrow> world \<Rightarrow> (py_error + unit) \<times> world"
where
  "send_message net webhook_url content embeds w =
     perform net
       (HttpPost webhook_url content
          (case embeds of None \<Rightarrow> None | Some [] \<Rightarrow> None | Some (x # xs) \<Rightarrow> Some (x # xs))) w"

text \<open>\<^verbatim>\<open>DiscordNotifier.send_deadline_reminder\<close>.\<close>

definition discord_reminder_embed :: "int \<Rightarrow> int \<Rightarrow> event \<Rightarrow> embed" where
  "discord_reminder_embed days deadline e =
     \<lparr>emb_title = ''Deadline Reminder: '' @ ev_title e,
      emb_description = None,
      emb_color = (if days \<le> 3 then 0xFF0000 else 0xFFAA00),
      emb_url = (if truthy (ev_website e) then ev_website e else None),
      emb_fields = Some
        ([(''Category'', py_title (ev_category e), True),
          (''Days Left'', str_int days, True),
          (''Deadline'', isoformat deadline, True)]
         @ (case ev_relevance_tags e of
              None \<Rightarrow> []
            | Some tags \<Rightarrow> if tags \<noteq> [] then [(''Tags'', tags, False)] else []))\<rparr>"

definition discord_send_deadline_reminder ::
  "transport \<Rightarrow> string \<Rightarrow> int \<Rightarrow> event \<Rightarrow> world \<Rightarrow> (py_error + unit) \<times> world"
where
  "discord_send_deadline_reminder net webhook_url today e w =
     (case days_until_deadline today e of
        None \<Rightarrow> (Inl none_le_int, w)
      | Some days \<Rightarrow>
          (case ev_submission_deadline e of
             None \<Rightarrow> (Inl none_isoformat, w)
           | Some deadline \<Rightarrow>
               send_message net webhook_url [] (Some [discord_reminder_embed days deadline e]) w))"

text \<open>\<^verbatim>\<open>DiscordNotifier.send_daily_digest\<close>.\<close>

definition discord_deadline_line :: "int \<Rightarrow> event \<Rightarrow> py_error + string" where
  "discord_deadline_line today e =
     (case ev_submission_deadline e of
        None \<Rightarrow> Inl none_isoformat
      | Some deadline \<Rightarrow>
          Inr (''**'' @ ev_title e @ ''** '' @ em_dash @ '' ''
               @ str_opt_int (days_until_deadline today e) @ '' days left (''
               @ isoformat deadline @ '')''))"

definition discord_deadlines_embed :: "string list \<Rightarrow> embed" where
  "discord_deadlines_embed dl_lines =
     \<lparr>emb_title = ''Upcoming Deadlines'',
      emb_description = Some (py_join nl dl_lines),
      emb_color = 0xFFAA00,
      emb_url = None,
      emb_fields = None\<rparr>"

definition discord_todos_embed :: "todo list \<Rightarrow> embed" where
  "discord_todos_embed pending_todos =
     \<lparr>emb_title = ''Pending Todos ('' @ str_nat (length pending_todos) @ '')'',
      emb_description =
        Some (py_join nl (map (\<lambda>t. bullet @ '' '' @ todo_title t) (take 10 pending_todos))),
      emb_color = 0x5865F2,
      emb_url = None,
      emb_fields = None\<rparr>"

definition discord_send_daily_digest ::
  "transport \<Rightarrow> string \<Rightarrow> int \<Rightarrow> event list \<Rightarrow> todo list \<Rightarrow> world \<Rightarrow> (py_error + unit) \<times> world"
where
  "discord_send_daily_digest net webhook_url today upcoming_deadlines pending_todos w =
     (case (if upcoming_deadlines \<noteq> []
            then map_result (discord_deadline_line today) (take 10 upcoming_deadlines)
            else Inr []) of
        Inl e \<Rightarrow> (Inl e, w)
      | Inr dl_lines \<Rightarrow>
          (let embeds =
                 (if upcoming_deadlines \<noteq> [] then [discord_deadlines_embed dl_lines] else [])
                 @ (if pending_todos \<noteq> [] then [discord_todos_embed pending_todos] else [])
           in if embeds \<noteq> []
              then send_message net webhook_url
                     (''**Daily Digest '' @ em_dash @ '' '' @ isoformat today @ ''**'')
                     (Some embeds) w
              else (Inr (), w)))"

subsection \<open>The email notifier (\<^verbatim>\<open>integrations.py\<close>)\<close>

text \<open>\<^verbatim>\<open>EmailNotifier._send\<close>: one SMTP session; the sender is the user name.\<close>

definition email_send ::
  "transport \<Rightarrow> string \<Rightarrow> int \<Rightarrow> string \<Rightarrow> string \<Rightarrow> string \<Rightarrow> string \<Rightarrow> string \<Rightarrow> world
     \<Rightarrow> (py_error + unit) \<times> world"
where
  "email_send net smtp_server smtp_port username password to_email subject html_body w =
     perform net (SmtpSend smtp_server smtp_port username password to_email subject html_body) w"

text \<open>\<^verbatim>\<open>EmailNotifier.send_deadline_reminder\<close>: the body, line by line, and the subject.\<close>

definition email_reminder_html :: "int \<Rightarrow> int \<Rightarrow> event \<Rightarrow> string" where
  "email_reminder_html days deadline e =
     py_join nl
       ['''',
        ''        <div style='' @ dq @ ''font-family: sans-serif; max-width: 600px; margin: 0 auto;''
          @ dq @ ''>'',
        ''            <div style='' @ dq @ ''background: ''
          @ (if days \<le> 3 then ''#dc2626'' else ''#f59e0b'')
          @ ''; color: white; padding: 16px; border-radius: 8px 8px 0 0;'' @ dq @ ''>'',
        ''                <h2 style='' @ dq @ ''margin:0;'' @ dq @ ''>Deadline Reminder</h2>'',
        ''            </div>'',
        ''            <div style='' @ dq
          @ ''border: 1px solid #e5e7eb; padding: 16px; border-radius: 0 0 8px 8px;'' @ dq @ ''>'',
        ''                <h3>'' @ ev_title e @ ''</h3>'',
        ''                <p><strong>Deadline:</strong> '' @ isoformat deadline @ ''</p>'',
        ''                <p><strong>Days remaining:</strong> '' @ str_int days @ ''</p>'',
        ''                <p><strong>Category:</strong> '' @ py_title (ev_category e) @ ''</p>'',
        ''                ''
          @ (case ev_website e of
               None \<Rightarrow> []
             | Some website \<Rightarrow>
                 if website \<noteq> []
                 then ''<p><a href='' @ sq @ website @ sq @ ''>Visit website</a></p>''
                 else []),
        ''            </div>'',
        ''        </div>'',
        ''        '']"

definition email_reminder_subject :: "int \<Rightarrow> event \<Rightarrow> string" where
  "email_reminder_subject days e =
     ''[PPML Dashboard] Deadline: '' @ ev_title e @ '' ('' @ str_int days @ '' days left)''"

definition email_send_deadline_reminder ::
  "transport \<Rightarrow> string \<Rightarrow> int \<Rightarrow> string \<Rightarrow> string \<Rightarrow> string \<Rightarrow> int \<Rightarrow> event \<Rightarrow> world
     \<Rightarrow> (py_error + unit) \<times> world"
where
  "email_send_deadline_reminder net smtp_server smtp_port username password to_email today e w =
     (case days_until_deadline today e of
        None \<Rightarrow> (Inl none_le_int, w)
      | Some days \<Rightarrow>
          (case ev_submission_deadline e of
             None \<Rightarrow> (Inl none_isoformat, w)
           | Some deadline \<Rightarrow>
               email_send net smtp_server smtp_port username password to_email
                 (email_reminder_subject days e) (email_reminder_html days deadline e) w))"

text \<open>\<^verbatim>\<open>EmailNotifier.send_daily_digest\<close>: a table row per event, a list item per todo.\<close>

definition email_deadline_row :: "int \<Rightarrow> event \<Rightarrow> py_error + string" where
  "email_deadline_row today e =
     (case days_until_deadline today e of
        None \<Rightarrow> Inl none_le_int
      | Some days \<Rightarrow>
          (case ev_submission_deadline e of
             None \<Rightarrow> Inl none_isoformat
           | Some deadline \<Rightarrow>
               Inr (''<tr><td>''
                    @ (case ev_website e of
                         None \<Rightarrow> ev_title e
                       | Some website \<Rightarrow>
                           if website \<noteq> []
                           then ''<a href='' @ sq @ website @ sq @ ''>'' @ ev_title e @ ''</a>''
                           else ev_title e)
                    @ ''</td><td>'' @ ev_category e @ ''</td><td style='' @ sq @ ''color:''
                    @ (if days \<le> 3 then ''#dc2626''
                       else if days \<le> 7 then ''#f59e0b'' else ''#10b981'')
                    @ '';font-weight:bold;'' @ sq @ ''>'' @ str_int days @ '' days</td><td>''
                    @ isoformat deadline @ ''</td></tr>'')))"

definition priority_icon :: "string \<Rightarrow> string" where
  "priority_icon priority =
     (case map_of
        [(''high'', [CHR 0xF0, CHR 0x9F, CHR 0x94, CHR 0xB4]),
         (''medium'', [CHR 0xF0, CHR 0x9F, CHR 0x9F, CHR 0xA1]),
         (''low'', [CHR 0xF0, CHR 0x9F, CHR 0x9F, CHR 0xA2])] priority of
        Some icon \<Rightarrow> icon
      | None \<Rightarrow> [CHR 0xE2, CHR 0x9A, CHR 0xAA])"

definition email_todo_item :: "todo \<Rightarrow> string" where
  "email_todo_item t =
     ''<li>'' @ priority_icon (todo_priority t) @ '' '' @ todo_title t
     @ (case todo_due_date t of
          None \<Rightarrow> []
        | Some due \<Rightarrow> '' '' @ em_dash @ '' due '' @ isoformat due)
     @ ''</li>''"

definition email_table_head :: string where
  "email_table_head =
     ''<table style='' @ sq @ ''width:100%;border-collapse:collapse;'' @ sq
     @ ''><tr style='' @ sq @ ''background:#f3f4f6;'' @ sq
     @ ''><th style='' @ sq @ ''text-align:left;padding:8px;'' @ sq @ ''>Event</th>''
     @ ''<th style='' @ sq @ ''padding:8px;'' @ sq @ ''>Type</th>''
     @ ''<th style='' @ sq @ ''padding:8px;'' @ sq @ ''>Remaining</th>''
     @ ''<th style='' @ sq @ ''padding:8px;'' @ sq @ ''>Date</th></tr>''"

definition email_deadlines_section :: "string \<Rightarrow> string" where
  "email_deadlines_section deadline_rows =
     (if deadline_rows \<noteq> [] then email_table_head @ deadline_rows @ ''</table>''
      else ''<p>No upcoming deadlines.</p>'')"

definition email_todos_section :: "string \<Rightarrow> string" where
  "email_todos_section todo_items =
     (if todo_items \<noteq> [] then ''<ul>'' @ todo_items @ ''</ul>''
      else ''<p>No pending tasks.</p>'')"

definition email_digest_html :: "int \<Rightarrow> string \<Rightarrow> nat \<Rightarrow> string \<Rightarrow> string" where
  "email_digest_html today deadline_rows n_todos todo_items =
     py_join nl
       ['''',
        ''        <div style='' @ dq @ ''font-family: sans-serif; max-width: 700px; margin: 0 auto;''
          @ dq @ ''>'',
        ''            <div style='' @ dq
          @ ''background: #4f46e5; color: white; padding: 16px; border-radius: 8px 8px 0 0;''
          @ dq @ ''>'',
        ''                <h2 style='' @ dq @ ''margin:0;'' @ dq @ ''>PPML/FHE Dashboard ''
          @ em_dash @ '' Daily Digest</h2>'',
        ''                <p style='' @ dq @ ''margin:4px 0 0 0; opacity:0.8;'' @ dq @ ''>''
          @ strftime_long today @ ''</p>'',
        ''            </div>'',
        ''            <div style='' @ dq @ ''border: 1px solid #e5e7eb; padding: 16px;'' @ dq @ ''>'',
        ''                <h3>Upcoming Deadlines</h3>'',
        ''                '' @ email_deadlines_section deadline_rows,
        ''            </div>'',
        ''            <div style='' @ dq
          @ ''border: 1px solid #e5e7eb; padding: 16px; border-radius: 0 0 8px 8px;'' @ dq @ ''>'',
        ''                <h3>Pending Tasks ('' @ str_nat n_todos @ '')</h3>'',
        ''                '' @ email_todos_section todo_items,
        ''            </div>'',
        ''        </div>'',
        ''        '']"

definition email_send_daily_digest ::
  "transport \<Rightarrow> string \<Rightarrow> int \<Rightarrow> string \<Rightarrow> string \<Rightarrow> string \<Rightarrow> int \<Rightarrow> event list \<Rightarrow> todo list
     \<Rightarrow> world \<Rightarrow> (py_error + unit) \<times> world"
where
  "email_send_daily_digest net smtp_server smtp_port username password to_email today
       upcoming_deadlines pending_todos w =
     (case map_result (email_deadline_row today) (take 15 upcoming_deadlines) of
        Inl e \<Rightarrow> (Inl e, w)
      | Inr rows \<Rightarrow>
          email_send net smtp_server smtp_port username password to_email
            (''[PPML Dashboard] Daily Digest '' @ em_dash @ '' '' @ isoformat today)
            (email_digest_html today (concat rows) (length pending_todos)
               (concat (map email_todo_item (take 10 pending_todos)))) w)"

text \<open>The method calls \<^verbatim>\<open>notifier.send_deadline_reminder\<close> and \<^verbatim>\<open>notifier.send_daily_digest\<close>.\<close>

fun send_deadline_reminder ::
  "transport \<Rightarrow> int \<Rightarrow> notifier \<Rightarrow> event \<Rightarrow> world \<Rightarrow> (py_error + unit) \<times> world"
where
  "send_deadline_reminder net today (DiscordNotifier webhook_url) e w =
     discord_send_deadline_reminder net webhook_url today e w"
| "send_deadline_reminder net today (EmailNotifier server port username password to_email) e w =
     email_send_deadline_reminder net server port username password to_email today e w"

fun send_daily_digest_via ::
  "transport \<Rightarrow> int \<Rightarrow> notifier \<Rightarrow> event list \<Rightarrow> todo list \<Rightarrow> world \<Rightarrow> (py_error + unit) \<times> world"
where
  "send_daily_digest_via net today (DiscordNotifier webhook_url) upcoming pending w =
     discord_send_daily_digest net webhook_url today upcoming pending w"
| "send_daily_digest_via net today (EmailNotifier server port username password to_email)
       upcoming pending w =
     email_send_daily_digest net server port username password to_email today upcoming pending w"

subsection \<open>The Obsidian export (\<^verbatim>\<open>integrations.py\<close>)\<close>

text \<open>
  The vault is the content of its files by path; \<^verbatim>\<open>_write_file\<close> creates the directory
  and overwrites the file.
\<close>

type_synonym vault = "string \<rightharpoonup> string"

definition write_file :: "string \<Rightarrow> string \<Rightarrow> vault \<Rightarrow> vault" where
  "write_file filepath content v = v(filepath \<mapsto> content)"

definition base_dir :: "string \<Rightarrow> string" where
  "base_dir vault_path = path_join vault_path [''PPML-FHE-Dashboard'']"

text \<open>\<^verbatim>\<open>if x:\<close> on an optional string, and on an optional date (a date is always true).\<close>

fun when_str :: "string option \<Rightarrow> (string \<Rightarrow> 'a list) \<Rightarrow> 'a list" where
  "when_str None f = []"
| "when_str (Some s) f = (if s \<noteq> [] then f s else [])"

fun when_date :: "int option \<Rightarrow> (int \<Rightarrow> 'a list) \<Rightarrow> 'a list" where
  "when_date None f = []"
| "when_date (Some d) f = f d"

definition tag_lines :: "string \<Rightarrow> string list" where
  "tag_lines tags = map (\<lambda>t. ''  - '' @ py_strip t) (py_split (CHR '','') tags)"

text \<open>
  \<^verbatim>\<open>ObsidianExport.export_event\<close>. The file name keeps the characters \<open>c\<close> of the title
  with \<^verbatim>\<open>c.isalnum() or c in (' ', '-', '_')\<close>, and is then stripped. No alphanumeric
  character is whitespace, so the only whitespace left for \<^verbatim>\<open>strip()\<close> is the space.
\<close>

definition keep_char :: "(string \<Rightarrow> bool) \<Rightarrow> string \<Rightarrow> bool" where
  "keep_char unicode_alnum c =
     (py_isalnum unicode_alnum c \<or> c = '' '' \<or> c = ''-'' \<or> c = ''_'')"

definition safe_title :: "(string \<Rightarrow> bool) \<Rightarrow> string \<Rightarrow> string" where
  "safe_title unicode_alnum title =
     py_strip (concat (filter (keep_char unicode_alnum) (code_points title)))"

definition event_filepath :: "(string \<Rightarrow> bool) \<Rightarrow> string \<Rightarrow> event \<Rightarrow> string" where
  "event_filepath unicode_alnum vault_path e =
     path_join (path_join (base_dir vault_path) [''Events'', py_title (ev_category e) @ ''s''])
       [safe_title unicode_alnum (ev_title e) @ ''.md'']"

definition event_frontmatter :: "event \<Rightarrow> string list" where
  "event_frontmatter e =
     [''---'',
      ''title: '' @ dq @ ev_title e @ dq,
      ''category: '' @ ev_category e,
      ''status: '' @ str_opt (ev_status e)]
     @ when_str (ev_website e) (\<lambda>website. [''website: '' @ dq @ website @ dq])
     @ when_date (ev_submission_deadline e) (\<lambda>d. [''submission_deadline: '' @ isoformat d])
     @ when_date (ev_event_start_date e) (\<lambda>d. [''event_start: '' @ isoformat d])
     @ when_date (ev_event_end_date e) (\<lambda>d. [''event_end: '' @ isoformat d])
     @ when_str (ev_relevance_tags e) (\<lambda>tags. ''tags:'' # tag_lines tags)
     @ when_str (ev_location e) (\<lambda>location. [''location: '' @ location])
     @ [''---'', '''']"

definition event_key_dates :: "event \<Rightarrow> string list" where
  "event_key_dates e =
     (if ev_submission_deadline e \<noteq> None \<or> ev_notification_date e \<noteq> None
         \<or> ev_event_start_date e \<noteq> None
      then [''## Key Dates'']
        @ when_date (ev_submission_deadline e) (\<lambda>d. [''- **Submission Deadline:** '' @ isoformat d])
        @ when_date (ev_notification_date e) (\<lambda>d. [''- **Notification:** '' @ isoformat d])
        @ when_date (ev_camera_ready_date e) (\<lambda>d. [''- **Camera Ready:** '' @ isoformat d])
        @ when_date (ev_event_start_date e)
            (\<lambda>d. [''- **Event Date:** '' @ isoformat d
                   @ (case ev_event_end_date e of
                        None \<Rightarrow> []
                      | Some d_end \<Rightarrow> '' to '' @ isoformat d_end)])
        @ ['''']
      else [])"

definition event_body :: "event \<Rightarrow> string list" where
  "event_body e =
     [''# '' @ ev_title e, '''']
     @ when_str (ev_website e) (\<lambda>website. [''**Website:** ['' @ website @ '']('' @ website @ '')''])
     @ when_str (ev_association e) (\<lambda>association. [''**Association:** '' @ association])
     @ when_str (ev_location e) (\<lambda>location. [''**Location:** '' @ location])
     @ ['''']
     @ event_key_dates e
     @ when_str (ev_description e) (\<lambda>description. [''## Description'', description, ''''])
     @ when_str (ev_notes e) (\<lambda>notes. [''## Notes'', notes, ''''])"

definition event_content :: "event \<Rightarrow> string" where
  "event_content e = py_join nl (event_frontmatter e) @ py_join nl (event_body e)"

definition export_event :: "(string \<Rightarrow> bool) \<Rightarrow> string \<Rightarrow> event \<Rightarrow> vault \<Rightarrow> vault" where
  "export_event unicode_alnum vault_path e v =
     write_file (event_filepath unicode_alnum vault_path e) (event_content e) v"

text \<open>\<^verbatim>\<open>ObsidianExport.export_researcher\<close>.\<close>

definition researcher_filepath :: "string \<Rightarrow> researcher \<Rightarrow> string" where
  "researcher_filepath vault_path r =
     path_join (base_dir vault_path)
       [''Researchers'', py_replace (CHR ''/'') (CHR ''-'') (res_name r) @ ''.md'']"

definition researcher_lines :: "researcher \<Rightarrow> string list" where
  "researcher_lines r =
     [''---'',
      ''name: '' @ dq @ res_name r @ dq,
      ''affiliation: '' @ dq @ or_empty (res_affiliation r) @ dq]
     @ when_str (res_research_areas r) (\<lambda>areas. ''tags:'' # tag_lines areas)
     @ [''---'', '''', ''# '' @ res_name r, '''']
     @ when_str (res_affiliation r) (\<lambda>affiliation. [''**Affiliation:** '' @ affiliation])
     @ when_str (res_website r) (\<lambda>website. [''**Website:** ['' @ website @ '']('' @ website @ '')''])
     @ when_str (res_research_areas r) (\<lambda>areas. [''**Research Areas:** '' @ areas])
     @ when_str (res_notes r) (\<lambda>notes. ['''', ''## Notes'', notes])"

definition export_researcher :: "string \<Rightarrow> researcher \<Rightarrow> vault \<Rightarrow> vault" where
  "export_researcher vault_path r v =
     write_file (researcher_filepath vault_path r) (py_join nl (researcher_lines r)) v"

text \<open>\<^verbatim>\<open>ObsidianExport.export_daily_log\<close>.\<close>

fun str_opt_float :: "py_float option \<Rightarrow> string" where
  "str_opt_float None = ''None''"
| "str_opt_float (Some x) = float_str x"

fun truthy_float :: "py_float option \<Rightarrow> bool" where
  "truthy_float None = False"
| "truthy_float (Some x) = float_nonzero x"

definition daily_log_filepath :: "string \<Rightarrow> daily_log \<Rightarrow> string" where
  "daily_log_filepath vault_path l =
     path_join (base_dir vault_path) [''Daily Notes'', isoformat (log_date l) @ ''.md'']"

definition daily_log_lines :: "daily_log \<Rightarrow> string list" where
  "daily_log_lines l =
     [''---'',
      ''date: '' @ isoformat (log_date l),
      ''hours_worked: '' @ str_opt_float (log_hours_worked l)]
     @ when_str (log_mood l) (\<lambda>mood. [''mood: '' @ mood])
     @ when_str (log_tags l) (\<lambda>tags. ''tags:'' # tag_lines tags)
     @ [''---'', '''', ''# '' @ isoformat (log_date l), '''']
     @ (if truthy_float (log_hours_worked l)
        then [''**Hours worked:** '' @ str_opt_float (log_hours_worked l)] else [])
     @ when_str (log_mood l) (\<lambda>mood. [''**Mood:** '' @ mood])
     @ ['''', or_empty (log_content l)]"

definition export_daily_log :: "string \<Rightarrow> daily_log \<Rightarrow> vault \<Rightarrow> vault" where
  "export_daily_log vault_path l v =
     write_file (daily_log_filepath vault_path l) (py_join nl (daily_log_lines l)) v"

text \<open>
  \<^verbatim>\<open>ObsidianExport.export_all\<close>: every event, researcher and log in turn, then the index
  with the categories in sorted order.
\<close>

definition index_lines :: "event list \<Rightarrow> string list" where
  "index_lines events =
     [''# PPML/FHE Research Dashboard'', '''',
      ''## Quick Links'',
      ''- [[Events]]'', ''- [[Researchers]]'', ''- [[Daily Notes]]'',
      '''', ''## Event Categories'']
     @ map (\<lambda>cat. ''- [[Events/'' @ py_title cat @ ''s/]]'') (sort (remdups (map ev_category events)))"

definition export_all ::
  "(string \<Rightarrow> bool) \<Rightarrow> string \<Rightarrow> event list \<Rightarrow> researcher list \<Rightarrow> daily_log list \<Rightarrow> vault
     \<Rightarrow> vault"
where
  "export_all unicode_alnum vault_path events researchers daily_logs v =
     write_file (path_join (base_dir vault_path) [''Index.md'']) (py_join nl (index_lines events))
       (fold (export_daily_log vault_path) daily_logs
          (fold (export_researcher vault_path) researchers
             (fold (export_event unicode_alnum vault_path) events v)))"

subsection \<open>The scheduled jobs (\<^verbatim>\<open>scheduler.py\<close>)\<close>

text \<open>The environment: \<^verbatim>\<open>os.getenv(name)\<close> is \<open>env name\<close>.\<close>

type_synonym environ = "string \<rightharpoonup> string"

definition invalid_literal :: "string \<Rightarrow> py_error" where
  "invalid_literal s = ValueError (''invalid literal for int() with base 10: '' @ sq @ s @ sq)"

text \<open>
  \<^verbatim>\<open>_get_notifiers\<close>: Discord when its URL is set, email when all four of its settings
  are; the port is parsed only then.
\<close>

definition get_notifiers :: "environ \<Rightarrow> py_error + (string \<times> notifier) list" where
  "get_notifiers env =
     (let notifiers =
            (case env ''DISCORD_WEBHOOK_URL'' of
               None \<Rightarrow> []
             | Some discord_url \<Rightarrow>
                 if discord_url \<noteq> [] then [(''discord'', DiscordNotifier discord_url)] else [])
      in case (env ''SMTP_SERVER'', env ''SMTP_USERNAME'', env ''SMTP_PASSWORD'', env ''EMAIL_TO'') of
           (Some smtp_server, Some smtp_user, Some smtp_pass, Some email_to) \<Rightarrow>
             if smtp_server \<noteq> [] \<and> smtp_user \<noteq> [] \<and> smtp_pass \<noteq> [] \<and> email_to \<noteq> []
             then (let port_str = (case env ''SMTP_PORT'' of None \<Rightarrow> ''587'' | Some p \<Rightarrow> p)
                   in case py_int port_str of
                        None \<Rightarrow> Inl (invalid_literal port_str)
                      | Some port \<Rightarrow>
                          Inr (notifiers
                               @ [(''email'',
                                   EmailNotifier smtp_server port smtp_user smtp_pass email_to)]))
             else Inr notifiers
         | _ \<Rightarrow> Inr notifiers)"

text \<open>
  The queries of the digest. \<^verbatim>\<open>ORDER BY\<close> is a stable sort of the table in its stored
  order; strings compare by character code.
\<close>

definition upcoming_events :: "int \<Rightarrow> int \<Rightarrow> event list \<Rightarrow> event list" where
  "upcoming_events today max_days events =
     sort_key ev_submission_deadline
       (filter (\<lambda>e. case ev_submission_deadline e of
                       None \<Rightarrow> False
                     | Some d \<Rightarrow> d \<ge> today \<and> d \<le> today + max_days) events)"

definition pending_todos_query :: "todo list \<Rightarrow> todo list" where
  "pending_todos_query todos =
     sort_key (\<lambda>t. (todo_due_date t = None, todo_due_date t, todo_priority t))
       (filter (\<lambda>t. todo_status t \<in> set [''pending'', ''in_progress'']) todos)"

text \<open>
  \<^verbatim>\<open>try: ... except Exception as e: app.logger.error(f"{context}: {e}")\<close>: the exception
  is logged and not raised again.
\<close>

fun try_log :: "string \<Rightarrow> (py_error + unit) \<times> world \<Rightarrow> world" where
  "try_log context (Inr u, w) = w"
| "try_log context (Inl e, w) = w\<lparr>errlog := errlog w @ [context @ '': '' @ err_str e]\<rparr>"

text \<open>The loop over the notifiers of \<^verbatim>\<open>_send_daily_digest\<close>.\<close>

fun digest_loop ::
  "transport \<Rightarrow> int \<Rightarrow> event list \<Rightarrow> todo list \<Rightarrow> (string \<times> notifier) list \<Rightarrow> world \<Rightarrow> world"
where
  "digest_loop net today upcoming pending [] w = w"
| "digest_loop net today upcoming pending ((kind, n) # ns) w =
     digest_loop net today upcoming pending ns
       (try_log (''Failed to send daily digest via '' @ kind)
          (send_daily_digest_via net today n upcoming pending
             (w\<lparr>calls := calls w @ [DigestCall kind upcoming pending]\<rparr>)))"

definition max_empty :: py_error where
  "max_empty = ValueError ''max() arg is an empty sequence''"

definition send_daily_digest ::
  "transport \<Rightarrow> environ \<Rightarrow> int \<Rightarrow> int list \<Rightarrow> event list \<Rightarrow> todo list \<Rightarrow> world
     \<Rightarrow> (py_error + unit) \<times> world"
where
  "send_daily_digest net env today reminder_days events todos w =
     (case get_notifiers env of
        Inl e \<Rightarrow> (Inl e, w)
      | Inr notifiers \<Rightarrow>
          if notifiers = [] then (Inr (), w)
          else if reminder_days = [] then (Inl max_empty, w)
          else (Inr (),
                digest_loop net today
                  (upcoming_events today (Max (set reminder_days) + 7) events)
                  (pending_todos_query todos) notifiers w))"

text \<open>The three loops of \<^verbatim>\<open>_check_deadlines\<close>: notifiers, events, reminder days.\<close>

fun remind_loop ::
  "transport \<Rightarrow> int \<Rightarrow> event \<Rightarrow> (string \<times> notifier) list \<Rightarrow> world \<Rightarrow> world"
where
  "remind_loop net today e [] w = w"
| "remind_loop net today e ((kind, n) # ns) w =
     remind_loop net today e ns
       (try_log (''Failed to send reminder for '' @ ev_title e @ '' via '' @ kind)
          (send_deadline_reminder net today n e
             (w\<lparr>calls := calls w @ [ReminderCall kind e]\<rparr>)))"

fun events_loop ::
  "transport \<Rightarrow> int \<Rightarrow> (string \<times> notifier) list \<Rightarrow> event list \<Rightarrow> world \<Rightarrow> world"
where
  "events_loop net today notifiers [] w = w"
| "events_loop net today notifiers (e # es) w =
     events_loop net today notifiers es (remind_loop net today e notifiers w)"

fun days_loop ::
  "transport \<Rightarrow> int \<Rightarrow> (string \<times> notifier) list \<Rightarrow> event list \<Rightarrow> int list \<Rightarrow> world \<Rightarrow> world"
where
  "days_loop net today notifiers events [] w = w"
| "days_loop net today notifiers events (days # rest) w =
     days_loop net today notifiers events rest
       (events_loop net today notifiers
          (filter (\<lambda>e. ev_submission_deadline e = Some (today + days)) events) w)"

definition check_deadlines ::
  "transport \<Rightarrow> environ \<Rightarrow> int \<Rightarrow> int list \<Rightarrow> event list \<Rightarrow> world \<Rightarrow> (py_error + unit) \<times> world"
where
  "check_deadlines net env today reminder_days events w =
     (case get_notifiers env of
        Inl e \<Rightarrow> (Inl e, w)
      | Inr notifiers \<Rightarrow>
          if notifiers = [] then (Inr (), w)
          else (Inr (), days_loop net today notifiers events reminder_days w))"

subsection \<open>Observations\<close>

text \<open>
  The number of deadline reminders among the calls that went to the backend \<open>kind\<close> for
  the row with the primary key of \<open>e\<close>.
\<close>

fun is_reminder_for :: "string \<Rightarrow> event \<Rightarrow> call \<Rightarrow> bool" where
  "is_reminder_for kind e (ReminderCall kind' e') = (kind' = kind \<and> ev_id e' = ev_id e)"
| "is_reminder_for kind e (DigestCall kind' events todos) = False"

definition reminders_for :: "string \<Rightarrow> event \<Rightarrow> call list \<Rightarrow> nat" where
  "reminders_for kind e cs = length (filter (is_reminder_for kind e) cs)"

subsection \<open>Sample data\<close>

text \<open>
  Concrete rows and settings, used to run the model: the tenth of January 2024 as
  today, events whose deadlines are seven, six and fifteen days away and one without a
  deadline, two pending todos without a due date, three environments and a transport.
\<close>

definition today0 :: int where
  "today0 = 738895"

definition empty_world :: world where
  "empty_world = \<lparr>calls = [], requests = [], errlog = []\<rparr>"

definition event_a :: event where
  "event_a =
     \<lparr>ev_id = 1, ev_title = ''CRYPTO 2024'', ev_category = ''conference'',
      ev_website = Some ''https://crypto.iacr.org'', ev_association = None,
      ev_relevance_tags = Some ''fhe,mpc'', ev_location = None,
      ev_submission_deadline = Some 738902, ev_notification_date = None,
      ev_camera_ready_date = None, ev_event_start_date = None, ev_event_end_date = None,
      ev_description = None, ev_notes = None, ev_status = Some ''upcoming''\<rparr>"

definition event_b :: event where
  "event_b =
     \<lparr>ev_id = 2, ev_title = ''PETS 2024'', ev_category = ''workshop'',
      ev_website = None, ev_association = None,
      ev_relevance_tags = None, ev_location = None,
      ev_submission_deadline = Some 738901, ev_notification_date = None,
      ev_camera_ready_date = None, ev_event_start_date = None, ev_event_end_date = None,
      ev_description = None, ev_notes = None, ev_status = Some ''cfp_open''\<rparr>"

definition todo_medium :: todo where
  "todo_medium =
     \<lparr>todo_id = 1, todo_title = ''Read survey'', todo_priority = ''medium'',
      todo_due_date = None, todo_status = ''pending''\<rparr>"

definition todo_low :: todo where
  "todo_low =
     \<lparr>todo_id = 2, todo_title = ''Tidy notes'', todo_priority = ''low'',
      todo_due_date = None, todo_status = ''in_progress''\<rparr>"

definition discord_env :: environ where
  "discord_env = [''DISCORD_WEBHOOK_URL'' \<mapsto> ''https://discord.example/hook'']"

definition both_env :: environ where
  "both_env =
     [''DISCORD_WEBHOOK_URL'' \<mapsto> ''https://discord.example/hook'',
      ''SMTP_SERVER'' \<mapsto> ''smtp.example.org'', ''SMTP_USERNAME'' \<mapsto> ''me'',
      ''SMTP_PASSWORD'' \<mapsto> ''secret'', ''EMAIL_TO'' \<mapsto> ''me@example.org'']"

text \<open>An empty webhook URL, and an email configuration without its password.\<close>

definition partial_env :: environ where
  "partial_env =
     [''DISCORD_WEBHOOK_URL'' \<mapsto> '''', ''SMTP_SERVER'' \<mapsto> ''smtp.example.org'',
      ''SMTP_USERNAME'' \<mapsto> ''me'', ''EMAIL_TO'' \<mapsto> ''me@example.org'']"

text \<open>A transport on which every post to a webhook fails and every SMTP session succeeds.\<close>

definition discord_down :: transport where
  "discord_down history rq =
     (case rq of
        HttpPost url content embeds \<Rightarrow> Some (DeliveryError ''503 Server Error'')
      | SmtpSend server port username password to_email subject html \<Rightarrow> None)"

text \<open>An event without a deadline, and one whose deadline is fifteen days away.\<close>

definition event_undated :: event where
  "event_undated =
     \<lparr>ev_id = 3, ev_title = ''FHE seminar'', ev_category = ''seminar'',
      ev_website = None, ev_association = None,
      ev_relevance_tags = None, ev_location = None,
      ev_submission_deadline = None, ev_notification_date = None,
      ev_camera_ready_date = None, ev_event_start_date = None, ev_event_end_date = None,
      ev_description = None, ev_notes = None, ev_status = None\<rparr>"

definition event_far :: event where
  "event_far =
     \<lparr>ev_id = 4, ev_title = ''TCHES'', ev_category = ''journal'',
      ev_website = None, ev_association = None,
      ev_relevance_tags = None, ev_location = None,
      ev_submission_deadline = Some 738910, ev_notification_date = None,
      ev_camera_ready_date = None, ev_event_start_date = None, ev_event_end_date = None,
      ev_description = None, ev_notes = None, ev_status = Some ''upcoming''\<rparr>"

text \<open>
  A fragment of the table of alphanumeric characters outside ASCII: the letters
  \<^verbatim>\<open>U+00E9\<close> (e with acute accent) and \<^verbatim>\<open>U+00FC\<close> (u with diaeresis), by their UTF-8
  bytes.
\<close>

definition latin_letters :: "string \<Rightarrow> bool" where
  "latin_letters c = (c = [CHR 0xC3, CHR 0xA9] \<or> c = [CHR 0xC3, CHR 0xBC])"

section \<open>Properties\<close>

subsection \<open>A job without active backends\<close>

lemma get_notifiers_none:
  assumes "\<not> truthy (env ''DISCORD_WEBHOOK_URL'')"
    and "\<not> (truthy (env ''SMTP_SERVER'') \<and> truthy (env ''SMTP_USERNAME'')
             \<and> truthy (env ''SMTP_PASSWORD'') \<and> truthy (env ''EMAIL_TO''))"
  shows "get_notifiers env = Inr []"
proof -
  have d: "(case env ''DISCORD_WEBHOOK_URL'' of
               None \<Rightarrow> []
             | Some discord_url \<Rightarrow>
                 if discord_url \<noteq> [] then [(''discord'', DiscordNotifier discord_url)] else []) = []"
    using assms(1) by (cases "env ''DISCORD_WEBHOOK_URL''") auto
  show ?thesis
    using assms(2) unfolding get_notifiers_def d Let_def
    by (auto split: option.splits)
qed

text \<open>
  Claim C3. When the webhook URL is unset or empty and the four email settings are not
  all non-empty, no backend is active: both jobs return normally and leave the world as
  it was (no call, no request, no log entry), whatever the reminder days, the rows and
  the transport.
\<close>

theorem no_active_backend_noop:
  assumes "\<not> truthy (env ''DISCORD_WEBHOOK_URL'')"
    and "\<not> (truthy (env ''SMTP_SERVER'') \<and> truthy (env ''SMTP_USERNAME'')
             \<and> truthy (env ''SMTP_PASSWORD'') \<and> truthy (env ''EMAIL_TO''))"
  shows "send_daily_digest net env today reminder_days events todos w = (Inr (), w)
       \<and> check_deadlines net env today reminder_days events w = (Inr (), w)"
  using get_notifiers_none [OF assms]
  by (simp add: send_daily_digest_def check_deadlines_def)

theorem no_active_backend_noop_witness:
  "\<not> truthy (partial_env ''DISCORD_WEBHOOK_URL'')
   \<and> \<not> (truthy (partial_env ''SMTP_SERVER'') \<and> truthy (partial_env ''SMTP_USERNAME'')
             \<and> truthy (partial_env ''SMTP_PASSWORD'') \<and> truthy (partial_env ''EMAIL_TO''))
   \<and> truthy (partial_env ''SMTP_SERVER'')
   \<and> send_daily_digest discord_down partial_env today0 [] [event_a] [todo_low] empty_world
       = (Inr (), empty_world)
   \<and> check_deadlines discord_down partial_env today0 [7, 3, 1] [event_a] empty_world
       = (Inr (), empty_world)"
proof -
  have a: "\<not> truthy (partial_env ''DISCORD_WEBHOOK_URL'')"
    by (simp add: partial_env_def)
  have b: "\<not> (truthy (partial_env ''SMTP_SERVER'') \<and> truthy (partial_env ''SMTP_USERNAME'')
             \<and> truthy (partial_env ''SMTP_PASSWORD'') \<and> truthy (partial_env ''EMAIL_TO''))"
    by (simp add: partial_env_def)
  have c: "truthy (partial_env ''SMTP_SERVER'')"
    by (simp add: partial_env_def)
  show ?thesis
    using a b c
      no_active_backend_noop [OF a b, of discord_down today0 "[]" "[event_a]" "[todo_low]" empty_world]
      no_active_backend_noop [OF a b, of discord_down today0 "[7, 3, 1]" "[event_a]" "[todo_low]"
        empty_world]
    by simp
qed

subsection \<open>The Discord digest with nothing to report\<close>

text \<open>
  Claim C10. With no upcoming deadline and no pending todo,
  \<^verbatim>\<open>DiscordNotifier.send_daily_digest\<close> returns normally without posting anything: the
  world is unchanged.
\<close>

theorem discord_empty_digest_not_sent:
  "discord_send_daily_digest net webhook_url today [] [] w = (Inr (), w)"
  by (simp add: discord_send_daily_digest_def)

subsection \<open>What a job does to the world\<close>

text \<open>
  The calls a job makes are a function of the settings and the rows alone; the requests
  it puts on the network do not depend on which requests fail.
\<close>

lemma perform_world:
  "calls (snd (perform net rq w)) = calls w"
  "requests (snd (perform net rq w)) = requests w @ [rq]"
  by (simp_all add: perform_def Let_def split: option.split)

lemma try_log_world:
  "calls (try_log context rw) = calls (snd rw)"
  "requests (try_log context rw) = requests (snd rw)"
  by (cases rw; cases "fst rw"; simp)+

lemma send_deadline_reminder_calls:
  "calls (snd (send_deadline_reminder net today n e w)) = calls w"
  by (cases n)
    (simp_all add: discord_send_deadline_reminder_def email_send_deadline_reminder_def
      send_message_def email_send_def perform_world split: option.split)

lemma send_daily_digest_via_calls:
  "calls (snd (send_daily_digest_via net today n up td w)) = calls w"
  by (cases n)
    (simp_all add: discord_send_daily_digest_def email_send_daily_digest_def
      send_message_def email_send_def perform_world Let_def split: option.split sum.split)



lemma remind_loop_calls:
  "calls (remind_loop net today e ns w) = calls w @ map (\<lambda>(kind, n). ReminderCall kind e) ns"
proof (induction ns arbitrary: w)
  case Nil
  show ?case by simp
next
  case (Cons kn ns)
  obtain kind n where kn: "kn = (kind, n)" by (cases kn)
  show ?case
    by (simp add: kn Cons.IH try_log_world send_deadline_reminder_calls)
qed


lemma events_loop_calls:
  "calls (events_loop net today ns es w)
     = calls w @ concat (map (\<lambda>e. map (\<lambda>(kind, n). ReminderCall kind e) ns) es)"
  by (induction es arbitrary: w) (simp_all add: remind_loop_calls)


lemma days_loop_calls:
  "calls (days_loop net today ns events ds w)
     = calls w @ concat (map (\<lambda>days. concat (map (\<lambda>e. map (\<lambda>(kind, n). ReminderCall kind e) ns)
         (filter (\<lambda>e. ev_submission_deadline e = Some (today + days)) events))) ds)"
  by (induction ds arbitrary: w) (simp_all add: events_loop_calls)


lemma digest_loop_calls:
  "calls (digest_loop net today up td ns w) = calls w @ map (\<lambda>(kind, n). DigestCall kind up td) ns"
proof (induction ns arbitrary: w)
  case Nil
  show ?case by simp
next
  case (Cons kn ns)
  obtain kind n where kn: "kn = (kind, n)" by (cases kn)
  show ?case
    by (simp add: kn Cons.IH try_log_world send_daily_digest_via_calls)
qed


lemma get_notifiers_kinds:
  assumes "get_notifiers env = Inr ns"
  shows "distinct (map fst ns)"
proof -
  let ?d = "(case env ''DISCORD_WEBHOOK_URL'' of
               None \<Rightarrow> []
             | Some discord_url \<Rightarrow>
                 if discord_url \<noteq> [] then [(''discord'', DiscordNotifier discord_url)] else [])"
  have d: "map fst ?d = [] \<or> map fst ?d = [''discord'']"
    by (simp split: option.split)
  have "map fst ns = map fst ?d \<or> map fst ns = map fst ?d @ [''email'']"
    using assms unfolding get_notifiers_def Let_def
    by (auto split: option.splits if_splits)
  with d show ?thesis
    by auto
qed

lemma count_reminders_one_event:
  assumes "distinct (map fst ns)" and "(kind, n) \<in> set ns"
  shows "length (filter (is_reminder_for kind E) (map (\<lambda>(k, n). ReminderCall k e) ns))
       = (if ev_id e = ev_id E then 1 else 0)"
  using assms
proof (induction ns)
  case Nil
  then show ?case by simp
next
  case (Cons a ns)
  obtain k m where a: "a = (k, m)" by (cases a)
  show ?case
  proof (cases "k = kind")
    case True
    then have "kind \<notin> fst ` set ns"
      using Cons.prems(1) by (simp add: a)
    then have "filter (is_reminder_for kind E) (map (\<lambda>(k, n). ReminderCall k e) ns) = []"
      by (force simp: filter_empty_conv)
    then show ?thesis
      using True by (simp add: a)
  next
    case False
    then have "(kind, n) \<in> set ns"
      using Cons.prems(2) by (simp add: a)
    then show ?thesis
      using Cons.IH Cons.prems(1) False by (simp add: a)
  qed
qed

lemma count_reminders_events:
  assumes "distinct (map fst ns)" and "(kind, n) \<in> set ns"
    and "distinct (map ev_id es)"
  shows "length (filter (is_reminder_for kind E)
           (concat (map (\<lambda>e. map (\<lambda>(k, n). ReminderCall k e) ns) es)))
       = (if ev_id E \<in> ev_id ` set es then 1 else 0)"
  using assms(3)
proof (induction es)
  case Nil
  then show ?case by simp
next
  case (Cons e es)
  then show ?case
    using count_reminders_one_event [OF assms(1,2), of E e]
    by auto
qed

lemma count_reminders_days:
  assumes "distinct (map fst ns)" and "(kind, n) \<in> set ns"
    and "distinct (map ev_id events)" and "E \<in> set events"
  shows "length (filter (is_reminder_for kind E)
           (concat (map (\<lambda>days. concat (map (\<lambda>e. map (\<lambda>(k, n). ReminderCall k e) ns)
              (filter (\<lambda>e. ev_submission_deadline e = Some (today + days)) events))) ds)))
       = (case ev_submission_deadline E of
            None \<Rightarrow> 0
          | Some deadline \<Rightarrow> count_list ds (deadline - today))"
proof (induction ds)
  case Nil
  show ?case by (simp split: option.split)
next
  case (Cons d ds)
  let ?es = "filter (\<lambda>e. ev_submission_deadline e = Some (today + d)) events"
  have dist: "distinct (map ev_id ?es)"
    using assms(3) by (rule distinct_map_filter)
  have mem: "ev_id E \<in> ev_id ` set ?es \<longleftrightarrow> ev_submission_deadline E = Some (today + d)"
  proof
    assume "ev_id E \<in> ev_id ` set ?es"
    then obtain e where e: "e \<in> set events" "ev_submission_deadline e = Some (today + d)"
      "ev_id e = ev_id E"
      by auto
    have "inj_on ev_id (set events)"
      using assms(3) by (simp add: distinct_map)
    then have "e = E"
      using e(1,3) assms(4) by (auto dest: inj_onD)
    then show "ev_submission_deadline E = Some (today + d)"
      using e(2) by simp
  next
    assume "ev_submission_deadline E = Some (today + d)"
    then show "ev_id E \<in> ev_id ` set ?es"
      using assms(4) by auto
  qed
  have one: "length (filter (is_reminder_for kind E)
           (concat (map (\<lambda>e. map (\<lambda>(k, n). ReminderCall k e) ns) ?es)))
       = (if ev_submission_deadline E = Some (today + d) then 1 else 0)"
    using count_reminders_events [OF assms(1,2) dist, of E] mem by simp
  show ?case
    using Cons.IH one
    by (auto split: option.splits)
qed

lemma both_env_notifiers:
  "get_notifiers both_env
     = Inr [(''discord'', DiscordNotifier ''https://discord.example/hook''),
            (''email'', EmailNotifier ''smtp.example.org'' 587 ''me'' ''secret'' ''me@example.org'')]"
  by code_simp

subsection \<open>The deadline check\<close>

text \<open>
  Claim C1, as amended. Let a backend be active, the rows have distinct primary keys,
  and the job start from a world without calls. For a row \<open>E\<close> of the table with
  deadline \<open>today + d\<close>, the deadline check calls \<^verbatim>\<open>send_deadline_reminder\<close> of that
  backend for \<open>E\<close> once for each occurrence of \<open>d\<close> in the list of reminder days: once
  when \<open>d\<close> is listed once, never when \<open>d\<close> is not listed. A row without a deadline is
  never reminded of. The match is equality of days, whatever the transport does.
\<close>

theorem reminders_per_listed_offset:
  assumes "get_notifiers env = Inr ns" and "(kind, n) \<in> set ns"
    and "distinct (map ev_id events)" and "E \<in> set events"
    and "calls w = []"
  shows "reminders_for kind E (calls (snd (check_deadlines net env today reminder_days events w)))
       = (case ev_submission_deadline E of
            None \<Rightarrow> 0
          | Some deadline \<Rightarrow> count_list reminder_days (deadline - today))"
proof -
  have ne: "ns \<noteq> []"
    using assms(2) by auto
  have "calls (snd (check_deadlines net env today reminder_days events w))
      = concat (map (\<lambda>days. concat (map (\<lambda>e. map (\<lambda>(kind, n). ReminderCall kind e) ns)
         (filter (\<lambda>e. ev_submission_deadline e = Some (today + days)) events))) reminder_days)"
    using assms(1,5) ne by (simp add: check_deadlines_def days_loop_calls)
  then show ?thesis
    unfolding reminders_for_def
    using count_reminders_days [OF get_notifiers_kinds [OF assms(1)] assms(2,3,4)]
    by simp
qed

theorem reminders_per_listed_offset_witness:
  "reminders_for ''email'' event_a
     (calls (snd (check_deadlines discord_down both_env today0 [7, 3, 1] [event_a, event_b] empty_world)))
     = 1
   \<and> reminders_for ''email'' event_b
     (calls (snd (check_deadlines discord_down both_env today0 [7, 3, 1] [event_a, event_b] empty_world)))
     = 0"
proof -
  have m: "(''email'', EmailNotifier ''smtp.example.org'' 587 ''me'' ''secret'' ''me@example.org'')
      \<in> set [(''discord'', DiscordNotifier ''https://discord.example/hook''),
            (''email'', EmailNotifier ''smtp.example.org'' 587 ''me'' ''secret'' ''me@example.org'')]"
    by simp
  have d: "distinct (map ev_id [event_a, event_b])"
    by (simp add: event_a_def event_b_def)
  have c: "calls empty_world = []"
    by (simp add: empty_world_def)
  have a: "event_a \<in> set [event_a, event_b]" and b: "event_b \<in> set [event_a, event_b]"
    by simp_all
  show ?thesis
    using reminders_per_listed_offset [OF both_env_notifiers m d a c, of discord_down today0 "[7, 3, 1]"]
      reminders_per_listed_offset [OF both_env_notifiers m d b c, of discord_down today0 "[7, 3, 1]"]
    by (simp add: event_a_def event_b_def today0_def)
qed

text \<open>
  The claim as stated (exactly one reminder whenever \<open>d\<close> is among the reminder days)
  fails when an offset is listed twice, as in \<^verbatim>\<open>REMINDER_DAYS_BEFORE=7,7\<close>: the loop over
  the list runs once per entry.
\<close>

theorem duplicate_offset_reminds_twice:
  "ev_submission_deadline event_a = Some (today0 + 7)
   \<and> reminders_for ''discord'' event_a
       (calls (snd (check_deadlines reliable discord_env today0 [7, 7] [event_a] empty_world))) = 2"
  by code_simp

subsection \<open>Failure isolation\<close>







subsection \<open>The digest: the list of events\<close>

lemma upcoming_events_mset:
  "mset (upcoming_events today max_days events)
     = mset (filter (\<lambda>e. \<exists>d. ev_submission_deadline e = Some d \<and> today \<le> d
                              \<and> d \<le> today + max_days) events)"
proof -
  have eq: "(\<lambda>e. case ev_submission_deadline e of None \<Rightarrow> False
               | Some d \<Rightarrow> d \<ge> today \<and> d \<le> today + max_days)
      = (\<lambda>e. \<exists>d. ev_submission_deadline e = Some d \<and> today \<le> d \<and> d \<le> today + max_days)"
    by (auto split: option.splits)
  show ?thesis
    unfolding upcoming_events_def eq by simp
qed

lemma upcoming_events_sorted:
  "sorted_wrt (\<lambda>a b. \<exists>x y. ev_submission_deadline a = Some x \<and> ev_submission_deadline b = Some y
                          \<and> x \<le> y) (upcoming_events today max_days events)"
proof -
  let ?up = "upcoming_events today max_days events"
  have "sorted (map ev_submission_deadline ?up)"
    by (simp add: upcoming_events_def)
  then have s: "sorted_wrt (\<lambda>a b. ev_submission_deadline a \<le> ev_submission_deadline b) ?up"
    by (simp add: sorted_map)
  have dated: "\<exists>d. ev_submission_deadline e = Some d" if "e \<in> set ?up" for e
    using that by (auto simp: upcoming_events_def split: option.splits)
  show ?thesis
  proof (rule sorted_wrt_mono_rel [OF _ s])
    fix a b
    assume "a \<in> set ?up" "b \<in> set ?up"
      and le: "ev_submission_deadline a \<le> ev_submission_deadline b"
    then obtain x y where "ev_submission_deadline a = Some x" "ev_submission_deadline b = Some y"
      using dated by blast
    then show "\<exists>x y. ev_submission_deadline a = Some x \<and> ev_submission_deadline b = Some y \<and> x \<le> y"
      using le by simp
  qed
qed

lemma send_daily_digest_calls:
  assumes "calls w = []"
    and "c \<in> set (calls (snd (send_daily_digest net env today reminder_days events todos w)))"
  shows "\<exists>kind. c = DigestCall kind (upcoming_events today (Max (set reminder_days) + 7) events)
                     (pending_todos_query todos)"
proof (cases "get_notifiers env")
  case (Inl e)
  then show ?thesis
    using assms by (simp add: send_daily_digest_def)
next
  case (Inr ns)
  show ?thesis
  proof (cases "ns = [] \<or> reminder_days = []")
    case True
    then have "calls (snd (send_daily_digest net env today reminder_days events todos w)) = []"
      using Inr assms(1) by (cases "ns = []") (simp_all add: send_daily_digest_def)
    then show ?thesis
      using assms(2) by simp
  next
    case False
    then have "calls (snd (send_daily_digest net env today reminder_days events todos w))
        = map (\<lambda>(kind, n). DigestCall kind
                 (upcoming_events today (Max (set reminder_days) + 7) events)
                 (pending_todos_query todos)) ns"
      using Inr assms(1) by (simp add: send_daily_digest_def digest_loop_calls)
    then show ?thesis
      using assms(2) by auto
  qed
qed

text \<open>
  Claim C4. Every digest the job hands to a backend carries the same list of events:
  each row with a deadline \<open>d\<close> such that \<open>today \<le> d \<le> today + max(reminder_days) + 7\<close>,
  once, and no other row (a row without a deadline is not in it), in ascending order
  of the deadline.
\<close>

theorem digest_event_list:
  assumes "calls w = []"
    and "DigestCall kind upcoming pending
           \<in> set (calls (snd (send_daily_digest net env today reminder_days events todos w)))"
  shows "mset upcoming
           = mset (filter (\<lambda>e. \<exists>d. ev_submission_deadline e = Some d \<and> today \<le> d
                                    \<and> d \<le> today + (Max (set reminder_days) + 7)) events)
       \<and> sorted_wrt (\<lambda>a b. \<exists>x y. ev_submission_deadline a = Some x
                               \<and> ev_submission_deadline b = Some y \<and> x \<le> y) upcoming"
proof -
  from send_daily_digest_calls [OF assms]
  have "upcoming = upcoming_events today (Max (set reminder_days) + 7) events"
    by simp
  then show ?thesis
    using upcoming_events_mset upcoming_events_sorted by simp
qed

lemma digest_run:
  "calls (snd (send_daily_digest discord_down both_env today0 [7, 3, 1]
       [event_a, event_undated, event_far, event_b] [todo_medium, todo_low] empty_world))
   = [DigestCall ''discord'' [event_b, event_a] [todo_low, todo_medium],
      DigestCall ''email'' [event_b, event_a] [todo_low, todo_medium]]"
  by code_simp

theorem digest_event_list_witness:
  "DigestCall ''email'' [event_b, event_a] [todo_low, todo_medium]
     \<in> set (calls (snd (send_daily_digest discord_down both_env today0 [7, 3, 1]
         [event_a, event_undated, event_far, event_b] [todo_medium, todo_low] empty_world)))
   \<and> mset [event_b, event_a]
       = mset (filter (\<lambda>e. \<exists>d. ev_submission_deadline e = Some d \<and> today0 \<le> d
                                \<and> d \<le> today0 + (Max (set [7, 3, 1]) + 7))
                 [event_a, event_undated, event_far, event_b])
   \<and> sorted_wrt (\<lambda>a b. \<exists>x y. ev_submission_deadline a = Some x
                               \<and> ev_submission_deadline b = Some y \<and> x \<le> y) [event_b, event_a]"
proof -
  have c: "calls empty_world = []"
    by (simp add: empty_world_def)
  have m: "DigestCall ''email'' [event_b, event_a] [todo_low, todo_medium]
     \<in> set (calls (snd (send_daily_digest discord_down both_env today0 [7, 3, 1]
         [event_a, event_undated, event_far, event_b] [todo_medium, todo_low] empty_world)))"
    by (simp add: digest_run)
  show ?thesis
    using m digest_event_list [OF c m] by simp
qed

subsection \<open>The digest: the list of todos\<close>

text \<open>
  The todos of the digest are the rows whose status is \<^verbatim>\<open>pending\<close> or
  \<^verbatim>\<open>in_progress\<close>, by due date with the rows without one last, and then by the
  priority column as text, ascending.
\<close>

lemma pending_todos_query_sorted:
  "mset (pending_todos_query todos)
     = mset (filter (\<lambda>t. todo_status t = ''pending'' \<or> todo_status t = ''in_progress'') todos)
   \<and> sorted (map (\<lambda>t. (todo_due_date t = None, todo_due_date t, todo_priority t))
               (pending_todos_query todos))"
  by (simp add: pending_todos_query_def)

text \<open>
  Claim C5 asks for high before medium before low. The column is ordered as text
  (\<^verbatim>\<open>order_by(..., Todo.priority)\<close>), and as text \<^verbatim>\<open>high\<close> < \<^verbatim>\<open>low\<close> < \<^verbatim>\<open>medium\<close>: of two
  pending todos with the same due date, the one of low priority comes before the one
  of medium priority.
\<close>

theorem pending_todos_low_before_medium:
  "pending_todos_query [todo_medium, todo_low] = [todo_low, todo_medium]"
  by code_simp

subsection \<open>The vault export is idempotent\<close>

text \<open>
  An export overlays the vault with the files it writes, and what it writes is a
  function of the rows alone: the documents hold no time stamp and the categories of the
  index are sorted.
\<close>

lemma write_file_overlay:
  "write_file p c v = v ++ [p \<mapsto> c]"
  by (simp add: write_file_def)

lemma map_add_twice:
  "(v ++ m) ++ m = v ++ m"
  by (rule ext) (simp add: map_add_def split: option.split)

lemma fold_writes:
  "fold (\<lambda>x v. write_file (path x) (content x) v) xs v
     = v ++ map_of (rev (map (\<lambda>x. (path x, content x)) xs))"
proof (induction xs arbitrary: v)
  case Nil
  show ?case by simp
next
  case (Cons x xs)
  let ?m = "map_of (rev (map (\<lambda>x. (path x, content x)) xs))"
  have "fold (\<lambda>x v. write_file (path x) (content x) v) (x # xs) v
      = fold (\<lambda>x v. write_file (path x) (content x) v) xs (write_file (path x) (content x) v)"
    by simp
  also have "\<dots> = write_file (path x) (content x) v ++ ?m"
    by (rule Cons.IH)
  also have "\<dots> = v ++ ([path x \<mapsto> content x] ++ ?m)"
    by (simp only: write_file_overlay map_add_assoc)
  also have "[path x \<mapsto> content x] ++ ?m
      = map_of (rev (map (\<lambda>x. (path x, content x)) (x # xs)))"
    by (simp add: map_of_append)
  finally show ?case .
qed

lemma export_all_overlay:
  "\<exists>m. \<forall>v. export_all unicode_alnum vault_path events researchers daily_logs v = v ++ m"
proof -
  have e: "fold (export_event unicode_alnum vault_path) events v
      = v ++ map_of (rev (map (\<lambda>e. (event_filepath unicode_alnum vault_path e, event_content e)) events))" for v
    using fold_writes [of "event_filepath unicode_alnum vault_path" event_content events v]
    by (simp add: export_event_def [abs_def])
  have r: "fold (export_researcher vault_path) researchers v
      = v ++ map_of (rev (map (\<lambda>r. (researcher_filepath vault_path r,
                                      py_join nl (researcher_lines r))) researchers))" for v
    using fold_writes [of "researcher_filepath vault_path" "\<lambda>r. py_join nl (researcher_lines r)"
        researchers v]
    by (simp add: export_researcher_def [abs_def])
  have l: "fold (export_daily_log vault_path) daily_logs v
      = v ++ map_of (rev (map (\<lambda>l. (daily_log_filepath vault_path l,
                                      py_join nl (daily_log_lines l))) daily_logs))" for v
    using fold_writes [of "daily_log_filepath vault_path" "\<lambda>l. py_join nl (daily_log_lines l)"
        daily_logs v]
    by (simp add: export_daily_log_def [abs_def])
  show ?thesis
    unfolding export_all_def e r l write_file_overlay map_add_assoc [symmetric]
    by blast
qed

text \<open>
  Claim C8. Exporting the same events, researchers and daily logs a second time leaves
  every file of the vault as the first export left it, the index included. Moreover the
  content of a file after an export does not depend on what the vault held before: each
  path either holds the same content from whatever vault the export started, or is not
  touched by the export.
\<close>

theorem export_all_idempotent:
  "export_all unicode_alnum vault_path events researchers daily_logs
     (export_all unicode_alnum vault_path events researchers daily_logs v)
   = export_all unicode_alnum vault_path events researchers daily_logs v
   \<and> (\<forall>p. export_all unicode_alnum vault_path events researchers daily_logs v p
            = export_all unicode_alnum vault_path events researchers daily_logs v' p
          \<or> (export_all unicode_alnum vault_path events researchers daily_logs v p = v p
              \<and> export_all unicode_alnum vault_path events researchers daily_logs v' p = v' p))"
proof -
  obtain m where m: "\<And>u. export_all unicode_alnum vault_path events researchers daily_logs u = u ++ m"
    using export_all_overlay by blast
  have "(v ++ m) ++ m = v ++ m"
    by (rule map_add_twice)
  moreover have "(v ++ m) p = (v' ++ m) p \<or> ((v ++ m) p = v p \<and> (v' ++ m) p = v' p)" for p
    by (cases "m p") (simp_all add: map_add_def)
  ultimately show ?thesis
    by (simp add: m)
qed

lemma index_sample:
  "export_all latin_letters ''/vault'' [event_a, event_b] [] [] Map.empty ''/vault/PPML-FHE-Dashboard/Index.md''
     = Some (py_join nl
         [''# PPML/FHE Research Dashboard'', '''', ''## Quick Links'', ''- [[Events]]'',
          ''- [[Researchers]]'', ''- [[Daily Notes]]'', '''', ''## Event Categories'',
          ''- [[Events/Conferences/]]'', ''- [[Events/Workshops/]]''])"
  by code_simp

theorem export_all_idempotent_witness:
  "export_all latin_letters ''/vault'' [event_a, event_b] [] []
     (export_all latin_letters ''/vault'' [event_a, event_b] [] [] Map.empty)
     ''/vault/PPML-FHE-Dashboard/Index.md''
   = Some (py_join nl
         [''# PPML/FHE Research Dashboard'', '''', ''## Quick Links'', ''- [[Events]]'',
          ''- [[Researchers]]'', ''- [[Daily Notes]]'', '''', ''## Event Categories'',
          ''- [[Events/Conferences/]]'', ''- [[Events/Workshops/]]''])"
  using index_sample
    export_all_idempotent [of latin_letters "''/vault''" "[event_a, event_b]" "[]" "[]" Map.empty Map.empty]
  by simp

subsection \<open>File names of the vault export\<close>

lemma space_is_space: "py_isspace (CHR '' '')"
  by (simp add: py_isspace_def)

lemma take_takeWhile_prefix:
  "take (length (takeWhile P (take n xs))) xs = takeWhile P (take n xs)"
proof -
  have "takeWhile P (take n xs) = take (length (takeWhile P (take n xs))) (take n xs)"
    by (rule takeWhile_eq_take)
  moreover have "length (takeWhile P (take n xs)) \<le> n"
    using length_takeWhile_le [of P "take n xs"] by simp
  ultimately show ?thesis
    by (simp add: min_def)
qed

lemma concat_code_points:
  "concat (code_points s) = s"
proof (induction s rule: code_points.induct)
  case 1
  show ?case by simp
next
  case (2 c cs)
  let ?t = "takeWhile is_continuation (take (utf8_length c - 1) cs)"
  have "?t @ drop (length ?t) cs = cs"
    using take_takeWhile_prefix [of is_continuation "utf8_length c - 1" cs]
      append_take_drop_id [of "length ?t" cs]
    by simp
  then show ?case
    using 2 by simp
qed

lemma code_points_bytes:
  assumes "cp \<in> set (code_points s)"
  shows "(\<exists>a. cp = [a]) \<or> (\<forall>b \<in> set cp. \<not> py_isspace b)"
  using assms
proof (induction s rule: code_points.induct)
  case 1
  then show ?case by simp
next
  case (2 c cs)
  let ?t = "takeWhile is_continuation (take (utf8_length c - 1) cs)"
  show ?case
  proof (cases "cp = c # ?t")
    case True
    show ?thesis
    proof (cases "?t = []")
      case True
      then show ?thesis
        using \<open>cp = c # ?t\<close> by simp
    next
      case False
      then have "utf8_length c \<noteq> 1"
        by auto
      then have "192 \<le> (of_char c :: nat)"
        by (auto simp: utf8_length_def Let_def split: if_splits)
      then have c: "\<not> py_isspace c"
        by (simp add: py_isspace_def Let_def)
      have "\<not> py_isspace b" if "b \<in> set ?t" for b
      proof -
        have "is_continuation b"
          using that by (rule set_takeWhileD [THEN conjunct2])
        then show ?thesis
          by (simp add: is_continuation_def py_isspace_def Let_def)
      qed
      then show ?thesis
        using c \<open>cp = c # ?t\<close> by auto
    qed
  next
    case False
    then have "cp \<in> set (code_points (drop (length ?t) cs))"
      using 2(2) by simp
    then show ?thesis
      by (rule 2(1))
  qed
qed

lemma kept_space:
  assumes "keep_char unicode_alnum cp" and "cp \<in> set (code_points s)"
    and "b \<in> set cp" and "py_isspace b"
  shows "b = CHR '' ''"
proof -
  from code_points_bytes [OF assms(2)] assms(3,4)
  have cp: "cp = [b]"
    by auto
  have "\<not> (py_isdigit b \<or> py_isupper b \<or> py_islower b)"
    using assms(4)
    by (auto simp: py_isspace_def py_isdigit_def py_isupper_def py_islower_def Let_def)
  moreover have "\<not> py_isspace (CHR ''-'')" "\<not> py_isspace (CHR ''_'')"
    by (simp_all add: py_isspace_def)
  ultimately show ?thesis
    using assms(1,4) by (auto simp: keep_char_def py_isalnum_def cp)
qed

lemma all_same_replicate:
  assumes "\<forall>x \<in> set xs. x = a"
  shows "xs = replicate (length xs) a"
  using assms by (induction xs) auto

lemma strip_decomposition:
  assumes "\<forall>c \<in> set s. py_isspace c \<longrightarrow> c = CHR '' ''"
  shows "\<exists>n m. s = replicate n (CHR '' '') @ py_strip s @ replicate m (CHR '' '')"
proof -
  let ?u = "dropWhile py_isspace s"
  let ?a = "takeWhile py_isspace s"
  let ?b = "takeWhile py_isspace (rev ?u)"
  have s: "s = ?a @ ?u"
    by simp
  have "rev (?b @ dropWhile py_isspace (rev ?u)) = ?u"
    by (simp only: takeWhile_dropWhile_id rev_rev_ident)
  then have "rev (dropWhile py_isspace (rev ?u)) @ rev ?b = ?u"
    by (simp only: rev_append)
  then have u': "?u = py_strip s @ rev ?b"
    by (simp only: py_strip_def)
  have "\<forall>c \<in> set ?a. c = CHR '' ''"
    using assms by (metis set_takeWhileD)
  then have a: "?a = replicate (length ?a) (CHR '' '')"
    by (rule all_same_replicate)
  have "set ?u \<subseteq> set s"
    by (rule set_dropWhileD [THEN subsetI])
  then have "\<forall>c \<in> set (rev ?b). c = CHR '' ''"
    using assms by (auto dest!: set_takeWhileD)
  then have b: "rev ?b = replicate (length (rev ?b)) (CHR '' '')"
    by (rule all_same_replicate)
  have "s = ?a @ py_strip s @ rev ?b"
    using s u' by metis
  then show ?thesis
    using a b by metis
qed

lemma strip_ends:
  assumes "py_strip s \<noteq> []"
  shows "\<not> py_isspace (hd (py_strip s)) \<and> \<not> py_isspace (last (py_strip s))"
proof -
  let ?u = "dropWhile py_isspace s"
  let ?v = "dropWhile py_isspace (rev ?u)"
  have v: "?v \<noteq> []" and st: "py_strip s = rev ?v"
    using assms by (simp_all add: py_strip_def)
  have l: "\<not> py_isspace (hd ?v)"
    using v by (rule hd_dropWhile)
  have "?u \<noteq> []"
  proof
    assume a: "?u = []"
    have "?v = []"
      unfolding a by simp
    with v show False
      by simp
  qed
  then have hu: "\<not> py_isspace (hd ?u)"
    by (rule hd_dropWhile)
  obtain w where w: "rev ?u = w @ ?v"
    by (metis takeWhile_dropWhile_id)
  have "last ?v = last (rev ?u)"
    using v w by (metis last_appendR)
  also have "\<dots> = hd ?u"
    using \<open>?u \<noteq> []\<close> by (simp add: last_rev)
  finally have "\<not> py_isspace (last ?v)"
    using hu by simp
  then show ?thesis
    using l v by (simp add: st hd_rev last_rev)
qed

text \<open>
  Claim C9, as amended. The file of an exported event is named after its title: the
  characters of the title that are alphanumeric (as \<^verbatim>\<open>str.isalnum\<close> decides, also
  outside ASCII), spaces, hyphens or underscores, in their order and every other
  character dropped, then without the spaces at its two ends, followed by \<^verbatim>\<open>.md\<close>.
\<close>

theorem safe_title_characterisation:
  "event_filepath unicode_alnum vault_path e
     = path_join (path_join (base_dir vault_path) [''Events'', py_title (ev_category e) @ ''s''])
         [safe_title unicode_alnum (ev_title e) @ ''.md'']
   \<and> concat (code_points (ev_title e)) = ev_title e
   \<and> (\<exists>n m. concat (filter (\<lambda>c. py_isalnum unicode_alnum c \<or> c = '' '' \<or> c = ''-'' \<or> c = ''_'')
                        (code_points (ev_title e)))
              = replicate n (CHR '' '') @ safe_title unicode_alnum (ev_title e)
                @ replicate m (CHR '' ''))
   \<and> (safe_title unicode_alnum (ev_title e) = []
        \<or> (hd (safe_title unicode_alnum (ev_title e)) \<noteq> CHR '' ''
            \<and> last (safe_title unicode_alnum (ev_title e)) \<noteq> CHR '' ''))"
proof -
  let ?s = "concat (filter (keep_char unicode_alnum) (code_points (ev_title e)))"
  have k: "keep_char unicode_alnum
      = (\<lambda>c. py_isalnum unicode_alnum c \<or> c = '' '' \<or> c = ''-'' \<or> c = ''_'')"
    by (rule ext) (simp add: keep_char_def)
  have "\<forall>b \<in> set ?s. py_isspace b \<longrightarrow> b = CHR '' ''"
    using kept_space by auto
  then have "\<exists>n m. ?s = replicate n (CHR '' '') @ py_strip ?s @ replicate m (CHR '' '')"
    by (rule strip_decomposition)
  then have d: "\<exists>n m. ?s = replicate n (CHR '' '') @ safe_title unicode_alnum (ev_title e)
      @ replicate m (CHR '' '')"
    by (simp add: safe_title_def)
  have "safe_title unicode_alnum (ev_title e) = []
        \<or> (hd (safe_title unicode_alnum (ev_title e)) \<noteq> CHR '' ''
            \<and> last (safe_title unicode_alnum (ev_title e)) \<noteq> CHR '' '')"
    using strip_ends [of ?s] space_is_space by (auto simp: safe_title_def)
  then show ?thesis
    using d concat_code_points unfolding k by (simp add: event_filepath_def)
qed

text \<open>
  The claim as stated keeps every space; \<^verbatim>\<open>strip()\<close> drops those at the two ends of the
  filtered title.
\<close>

theorem safe_title_strips_spaces:
  "concat (filter (\<lambda>c. py_isalnum latin_letters c \<or> c = '' '' \<or> c = ''-'' \<or> c = ''_'')
      (code_points '' S&P 2024 ''))
     = '' SP 2024 ''
   \<and> safe_title latin_letters '' S&P 2024 '' = ''SP 2024''"
  by code_simp

text \<open>
  A letter outside ASCII is a character of its own and is kept: the title
  \<^verbatim>\<open>Caf\<close>\<^verbatim>\<open>U+00E9\<close>\<^verbatim>\<open> 2024: call\<close> gives the name \<^verbatim>\<open>Caf\<close>\<^verbatim>\<open>U+00E9\<close>\<^verbatim>\<open> 2024 call\<close>.
\<close>

lemma safe_title_keeps_letters:
  "safe_title latin_letters (''Caf'' @ [CHR 0xC3, CHR 0xA9] @ '' 2024: call'')
     = ''Caf'' @ [CHR 0xC3, CHR 0xA9] @ '' 2024 call''"
  by code_simp

text \<open>
  The file of a researcher is named by another rule: the name with each \<^verbatim>\<open>/\<close> replaced
  by a hyphen, every other character kept.
\<close>

lemma researcher_file_name:
  "researcher_filepath ''/vault''
     \<lparr>res_name = ''A. Kim/B: Lee?'', res_website = None, res_affiliation = None,
      res_research_areas = None, res_notes = None\<rparr>
   = ''/vault/PPML-FHE-Dashboard/Researchers/A. Kim-B: Lee?.md''"
  by code_simp

subsection \<open>What a message contains\<close>

lemma sublist_trans:
  assumes "sublist xs ys" and "sublist ys zs"
  shows "sublist xs zs"
  using assms by (rule sublist_order.order.trans)

lemma sublist_py_join:
  assumes "x \<in> set ls"
  shows "sublist x (py_join sep ls)"
  using assms
proof (induction sep ls rule: py_join.induct)
  case (1 sep)
  then show ?case by simp
next
  case (2 sep p)
  then show ?case by simp
next
  case (3 sep p q ps)
  show ?case
  proof (cases "x = p")
    case True
    then show ?thesis by simp
  next
    case False
    then have "sublist x (py_join sep (q # ps))"
      using 3 by simp
    then have "sublist x ((p @ sep) @ py_join sep (q # ps))"
      by (rule sublist_trans) (rule sublist_append_leftI)
    then show ?thesis by simp
  qed
qed

lemma sublist_line:
  assumes "i < length ls" and "sublist x (ls ! i)"
  shows "sublist x (py_join sep ls)"
  using assms sublist_py_join [of "ls ! i" ls sep] sublist_trans by fastforce

lemma email_digest_html_todos:
  "sublist (email_todos_section todo_items) (email_digest_html today rows n todo_items)"
  unfolding email_digest_html_def
  by (rule sublist_line [where i = 12]) (simp_all add: sublist_Cons_right)

lemma email_digest_html_deadlines:
  "sublist (email_deadlines_section rows) (email_digest_html today rows n todo_items)"
  unfolding email_digest_html_def
  by (rule sublist_line [where i = 8]) (simp_all add: sublist_Cons_right)

lemma map_result_rows:
  assumes "list_all (\<lambda>e. ev_submission_deadline e \<noteq> None) es"
  shows "\<exists>rows. map_result (email_deadline_row today) es = Inr rows \<and> length rows = length es
           \<and> list_all (\<lambda>r. r \<noteq> []) rows"
  using assms
proof (induction es)
  case Nil
  then show ?case by simp
next
  case (Cons e es)
  then obtain rows where r: "map_result (email_deadline_row today) es = Inr rows"
    "length rows = length es" "list_all (\<lambda>r. r \<noteq> []) rows"
    by auto
  obtain d where d: "ev_submission_deadline e = Some d"
    using Cons.prems by auto
  then obtain row where row: "email_deadline_row today e = Inr row" "row \<noteq> []"
    by (simp add: email_deadline_row_def days_until_deadline_def)
  show ?case
    using r row by simp
qed

lemma map_result_lines:
  assumes "list_all (\<lambda>e. ev_submission_deadline e \<noteq> None) es"
  shows "\<exists>ls. map_result (discord_deadline_line today) es = Inr ls"
  using assms
proof (induction es)
  case Nil
  then show ?case by simp
next
  case (Cons e es)
  then obtain ls where r: "map_result (discord_deadline_line today) es = Inr ls"
    by auto
  obtain d where d: "ev_submission_deadline e = Some d"
    using Cons.prems by auto
  then obtain line where "discord_deadline_line today e = Inr line"
    by (simp add: discord_deadline_line_def)
  then show ?case
    using r by simp
qed

subsection \<open>The digest with an empty half\<close>

lemma email_digest_request:
  assumes "map_result (email_deadline_row today) (take 15 upcoming) = Inr rows"
  shows "email_send_daily_digest net server port username password to_email today upcoming pending w
       = perform net (SmtpSend server port username password to_email
           (''[PPML Dashboard] Daily Digest '' @ em_dash @ '' '' @ isoformat today)
           (email_digest_html today (concat rows) (length pending)
              (concat (map email_todo_item (take 10 pending))))) w"
  using assms by (simp add: email_send_daily_digest_def email_send_def)

text \<open>
  Claim C6, as amended. Let the first fifteen events of the digest have a deadline, as
  those the job selects have. The email backend makes one request, whose body holds the
  paragraph \<^verbatim>\<open>No upcoming deadlines.\<close> when there is no event and the paragraph
  \<^verbatim>\<open>No pending tasks.\<close> when there is no todo; with two events, it holds the table with
  the rows of the two events. The Discord backend leaves out the embed of an empty half:
  with events and no todo its message holds the embed of the deadlines alone, with todos
  and no event the embed of the todos alone.
\<close>

theorem digest_empty_halves:
  assumes "list_all (\<lambda>e. ev_submission_deadline e \<noteq> None) (take 15 upcoming)"
  shows "(\<exists>subject html.
            email_send_daily_digest net server port username password to_email today
                upcoming pending w
              = perform net (SmtpSend server port username password to_email subject html) w
            \<and> (upcoming = [] \<longrightarrow> sublist ''<p>No upcoming deadlines.</p>'' html)
            \<and> (pending = [] \<longrightarrow> sublist ''<p>No pending tasks.</p>'' html)
            \<and> (\<forall>e1 e2 r1 r2.
                  upcoming = [e1, e2] \<and> email_deadline_row today e1 = Inr r1
                    \<and> email_deadline_row today e2 = Inr r2
                  \<longrightarrow> sublist (email_table_head @ r1 @ r2 @ ''</table>'') html))
       \<and> (upcoming \<noteq> [] \<and> pending = [] \<longrightarrow>
            (\<exists>content dl_lines.
               discord_send_daily_digest net webhook_url today upcoming pending w
                 = send_message net webhook_url content (Some [discord_deadlines_embed dl_lines]) w))
       \<and> (upcoming = [] \<and> pending \<noteq> [] \<longrightarrow>
            (\<exists>content.
               discord_send_daily_digest net webhook_url today upcoming pending w
                 = send_message net webhook_url content (Some [discord_todos_embed pending]) w))"
proof -
  obtain rows where rows: "map_result (email_deadline_row today) (take 15 upcoming) = Inr rows"
    "length rows = length (take 15 upcoming)" "list_all (\<lambda>r. r \<noteq> []) rows"
    using map_result_rows [OF assms] by blast
  let ?items = "concat (map email_todo_item (take 10 pending))"
  let ?html = "email_digest_html today (concat rows) (length pending) ?items"
  have a: "sublist ''<p>No upcoming deadlines.</p>'' ?html" if "upcoming = []"
  proof -
    have "rows = []"
      using rows(2) that by simp
    then have "email_deadlines_section (concat rows) = ''<p>No upcoming deadlines.</p>''"
      by (simp add: email_deadlines_section_def)
    then show ?thesis
      using email_digest_html_deadlines [of "concat rows" today "length pending" ?items] by simp
  qed
  have b: "sublist ''<p>No pending tasks.</p>'' ?html" if "pending = []"
  proof -
    have "email_todos_section ?items = ''<p>No pending tasks.</p>''"
      using that by (simp add: email_todos_section_def)
    then show ?thesis
      using email_digest_html_todos [of ?items today "concat rows" "length pending"] by simp
  qed
  have c: "sublist (email_table_head @ r1 @ r2 @ ''</table>'') ?html"
    if "upcoming = [e1, e2]" "email_deadline_row today e1 = Inr r1"
      "email_deadline_row today e2 = Inr r2" for e1 e2 r1 r2
  proof -
    have r: "rows = [r1, r2]"
      using rows(1) that by simp
    then have "r1 \<noteq> []"
      using rows(3) by simp
    then have "email_deadlines_section (concat rows) = email_table_head @ r1 @ r2 @ ''</table>''"
      using r by (simp add: email_deadlines_section_def)
    then show ?thesis
      using email_digest_html_deadlines [of "concat rows" today "length pending" ?items] by simp
  qed
  have email: "\<exists>subject html.
            email_send_daily_digest net server port username password to_email today
                upcoming pending w
              = perform net (SmtpSend server port username password to_email subject html) w
            \<and> (upcoming = [] \<longrightarrow> sublist ''<p>No upcoming deadlines.</p>'' html)
            \<and> (pending = [] \<longrightarrow> sublist ''<p>No pending tasks.</p>'' html)
            \<and> (\<forall>e1 e2 r1 r2.
                  upcoming = [e1, e2] \<and> email_deadline_row today e1 = Inr r1
                    \<and> email_deadline_row today e2 = Inr r2
                  \<longrightarrow> sublist (email_table_head @ r1 @ r2 @ ''</table>'') html)"
    using email_digest_request [OF rows(1)] a b c by blast
  have "list_all (\<lambda>e. ev_submission_deadline e \<noteq> None) (take 10 (take 15 upcoming))"
    using assms by (simp only: list_all_iff) (meson in_set_takeD)
  then have "list_all (\<lambda>e. ev_submission_deadline e \<noteq> None) (take 10 upcoming)"
    by simp
  then obtain ls where ls: "map_result (discord_deadline_line today) (take 10 upcoming) = Inr ls"
    using map_result_lines by blast
  have d1: "\<exists>content dl_lines.
               discord_send_daily_digest net webhook_url today upcoming pending w
                 = send_message net webhook_url content (Some [discord_deadlines_embed dl_lines]) w"
    if "upcoming \<noteq> []" "pending = []"
    using that ls by (auto simp: discord_send_daily_digest_def)
  have d2: "\<exists>content.
               discord_send_daily_digest net webhook_url today upcoming pending w
                 = send_message net webhook_url content (Some [discord_todos_embed pending]) w"
    if "upcoming = []" "pending \<noteq> []"
    using that by (auto simp: discord_send_daily_digest_def)
  show ?thesis
    using email d1 d2 by blast
qed

lemma sample_rows:
  "email_deadline_row today0 event_b
     = Inr (''<tr><td>PETS 2024</td><td>workshop</td><td style='' @ sq
            @ ''color:#f59e0b;font-weight:bold;'' @ sq
            @ ''>6 days</td><td>2024-01-16</td></tr>'')
   \<and> email_deadline_row today0 event_a
     = Inr (''<tr><td><a href='' @ sq @ ''https://crypto.iacr.org'' @ sq
            @ ''>CRYPTO 2024</a></td><td>conference</td><td style='' @ sq
            @ ''color:#f59e0b;font-weight:bold;'' @ sq
            @ ''>7 days</td><td>2024-01-17</td></tr>'')"
  by code_simp

theorem digest_empty_halves_witness:
  "list_all (\<lambda>e. ev_submission_deadline e \<noteq> None) (take 15 [event_b, event_a])
   \<and> (\<exists>subject html.
        email_send_daily_digest discord_down ''smtp.example.org'' 587 ''me'' ''secret''
            ''me@example.org'' today0 [event_b, event_a] [] empty_world
          = perform discord_down
              (SmtpSend ''smtp.example.org'' 587 ''me'' ''secret'' ''me@example.org'' subject html)
              empty_world
        \<and> sublist ''<p>No pending tasks.</p>'' html
        \<and> sublist
            (email_table_head
             @ (''<tr><td>PETS 2024</td><td>workshop</td><td style='' @ sq
                @ ''color:#f59e0b;font-weight:bold;'' @ sq
                @ ''>6 days</td><td>2024-01-16</td></tr>'')
             @ (''<tr><td><a href='' @ sq @ ''https://crypto.iacr.org'' @ sq
                @ ''>CRYPTO 2024</a></td><td>conference</td><td style='' @ sq
                @ ''color:#f59e0b;font-weight:bold;'' @ sq
                @ ''>7 days</td><td>2024-01-17</td></tr>'')
             @ ''</table>'') html)"
proof -
  have h: "list_all (\<lambda>e. ev_submission_deadline e \<noteq> None) (take 15 [event_b, event_a])"
    by (simp add: event_a_def event_b_def)
  from digest_empty_halves [OF h, of discord_down "''smtp.example.org''" 587 "''me''" "''secret''"
      "''me@example.org''" today0 "[]" empty_world]
  obtain subject html where
    s: "email_send_daily_digest discord_down ''smtp.example.org'' 587 ''me'' ''secret''
            ''me@example.org'' today0 [event_b, event_a] [] empty_world
          = perform discord_down
              (SmtpSend ''smtp.example.org'' 587 ''me'' ''secret'' ''me@example.org'' subject html)
              empty_world"
    and p: "sublist ''<p>No pending tasks.</p>'' html"
    and t: "\<And>e1 e2 r1 r2. [event_b, event_a] = [e1, e2] \<Longrightarrow> email_deadline_row today0 e1 = Inr r1
              \<Longrightarrow> email_deadline_row today0 e2 = Inr r2
              \<Longrightarrow> sublist (email_table_head @ r1 @ r2 @ ''</table>'') html"
    by blast
  have "sublist
            (email_table_head
             @ (''<tr><td>PETS 2024</td><td>workshop</td><td style='' @ sq
                @ ''color:#f59e0b;font-weight:bold;'' @ sq
                @ ''>6 days</td><td>2024-01-16</td></tr>'')
             @ (''<tr><td><a href='' @ sq @ ''https://crypto.iacr.org'' @ sq
                @ ''>CRYPTO 2024</a></td><td>conference</td><td style='' @ sq
                @ ''color:#f59e0b;font-weight:bold;'' @ sq
                @ ''>7 days</td><td>2024-01-17</td></tr>'')
             @ ''</table>'') html"
    by (rule t [OF refl sample_rows [THEN conjunct1] sample_rows [THEN conjunct2]])
  then show ?thesis
    using h s p by blast
qed

text \<open>
  The claim as stated fails for Discord: with two events and no todo, the message posted
  holds one embed, the deadlines, and nothing about the todos.
\<close>

theorem discord_digest_omits_empty_half:
  "requests (snd (discord_send_daily_digest reliable ''https://discord.example/hook'' today0
       [event_b, event_a] [] empty_world))
   = [HttpPost ''https://discord.example/hook''
        (''**Daily Digest '' @ em_dash @ '' 2024-01-10**'')
        (Some [\<lparr>emb_title = ''Upcoming Deadlines'',
                emb_description =
                  Some (''**PETS 2024** '' @ em_dash @ '' 6 days left (2024-01-16)'' @ nl
                        @ ''**CRYPTO 2024** '' @ em_dash @ '' 7 days left (2024-01-17)''),
                emb_color = 0xFFAA00, emb_url = None, emb_fields = None\<rparr>])]"
  by code_simp

subsection \<open>The deadline reminder\<close>

text \<open>
  For an event with a deadline, neither reminder raises before its request is made, with
  or without a website and tags. The Discord embed holds the title, the category, the
  days left, the deadline, the website and the tags; the email holds the title, the
  category, the days left, the deadline and the website.
\<close>

lemma reminders_do_not_raise:
  assumes "ev_submission_deadline e = Some d"
  shows "discord_send_deadline_reminder net webhook_url today e w
           = send_message net webhook_url []
               (Some [discord_reminder_embed (d - today) d e]) w
       \<and> email_send_deadline_reminder net server port username password to_email today e w
           = perform net
               (SmtpSend server port username password to_email
                  (email_reminder_subject (d - today) e) (email_reminder_html (d - today) d e)) w"
  using assms
  by (simp add: discord_send_deadline_reminder_def email_send_deadline_reminder_def
      days_until_deadline_def email_send_def)

lemma discord_reminder_includes:
  "emb_title (discord_reminder_embed days d e) = ''Deadline Reminder: '' @ ev_title e
   \<and> (\<exists>fs. emb_fields (discord_reminder_embed days d e) = Some fs
          \<and> (''Category'', py_title (ev_category e), True) \<in> set fs
          \<and> (''Days Left'', str_int days, True) \<in> set fs
          \<and> (''Deadline'', isoformat d, True) \<in> set fs
          \<and> (\<forall>tags. ev_relevance_tags e = Some tags \<and> tags \<noteq> [] \<longrightarrow> (''Tags'', tags, False) \<in> set fs))
   \<and> (truthy (ev_website e) \<longrightarrow> emb_url (discord_reminder_embed days d e) = ev_website e)"
  by (simp add: discord_reminder_embed_def)

lemma email_reminder_includes:
  "sublist (ev_title e) (email_reminder_html days d e)
   \<and> sublist (ev_title e) (email_reminder_subject days e)
   \<and> sublist (py_title (ev_category e)) (email_reminder_html days d e)
   \<and> sublist (isoformat d) (email_reminder_html days d e)
   \<and> sublist (str_int days) (email_reminder_html days d e)
   \<and> (\<forall>website. ev_website e = Some website \<and> website \<noteq> []
         \<longrightarrow> sublist website (email_reminder_html days d e))"
proof -
  have t: "sublist (ev_title e) (email_reminder_html days d e)"
    unfolding email_reminder_html_def
    by (rule sublist_line [where i = 6]) (simp_all add: sublist_Cons_right)
  have s: "sublist (ev_title e) (email_reminder_subject days e)"
    by (simp add: email_reminder_subject_def sublist_Cons_right)
  have c: "sublist (py_title (ev_category e)) (email_reminder_html days d e)"
    unfolding email_reminder_html_def
    by (rule sublist_line [where i = 9]) (simp_all add: sublist_Cons_right)
  have i: "sublist (isoformat d) (email_reminder_html days d e)"
    unfolding email_reminder_html_def
    by (rule sublist_line [where i = 7]) (simp_all add: sublist_Cons_right)
  have n: "sublist (str_int days) (email_reminder_html days d e)"
    unfolding email_reminder_html_def
    by (rule sublist_line [where i = 8]) (simp_all add: sublist_Cons_right)
  have w: "sublist website (email_reminder_html days d e)"
    if "ev_website e = Some website" "website \<noteq> []" for website
    unfolding email_reminder_html_def
    by (rule sublist_line [where i = 10]) (simp_all add: that sublist_Cons_right sq_def)
  show ?thesis
    using t s c i n w by blast
qed

text \<open>
  Claim C7 asks every backend for the relevance tags. The email reminder has no place for
  them: for the sample event with the tags \<^verbatim>\<open>fhe,mpc\<close>, neither the subject nor the body
  of the email holds a tag, while the Discord embed has its \<^verbatim>\<open>Tags\<close> field.
\<close>

theorem email_reminder_omits_tags:
  "ev_relevance_tags event_a = Some ''fhe,mpc''
   \<and> requests (snd (email_send_deadline_reminder reliable ''smtp.example.org'' 587 ''me'' ''secret''
         ''me@example.org'' today0 event_a empty_world))
     = [SmtpSend ''smtp.example.org'' 587 ''me'' ''secret'' ''me@example.org''
          (email_reminder_subject 7 event_a) (email_reminder_html 7 738902 event_a)]
   \<and> \<not> sublist ''fhe'' (email_reminder_subject 7 event_a)
   \<and> \<not> sublist ''mpc'' (email_reminder_subject 7 event_a)
   \<and> \<not> sublist ''fhe'' (email_reminder_html 7 738902 event_a)
   \<and> \<not> sublist ''mpc'' (email_reminder_html 7 738902 event_a)
   \<and> rq_embeds (hd (requests (snd (discord_send_deadline_reminder reliable
         ''https://discord.example/hook'' today0 event_a empty_world))))
     = Some [\<lparr>emb_title = ''Deadline Reminder: CRYPTO 2024'', emb_description = None,
              emb_color = 0xFFAA00, emb_url = Some ''https://crypto.iacr.org'',
              emb_fields = Some [(''Category'', ''Conference'', True), (''Days Left'', ''7'', True),
                                 (''Deadline'', ''2024-01-17'', True),
                                 (''Tags'', ''fhe,mpc'', False)]\<rparr>]"
  by code_simp

end
